theory Spec2Isabelle
  imports Main
begin

section \<open>JavaScript values\<close>

text \<open>
  The values the two scripts handle. Symbols, objects, functions and weak maps are
  identity-bearing: two of them are equal exactly when they are the same instance,
  which the model renders by an allocation number. A \<open>JWeakMap\<close> is an object for
  which \<^verbatim>\<open>instanceof WeakMap\<close> holds.
\<close>

datatype jsval =
    JUndefined
  | JNull
  | JBool bool
  | JNum int
  | JStr string
  | JSym nat
  | JObj nat
  | JFun nat
  | JWeakMap nat

text \<open>The exceptions that are thrown, by constructor and message.\<close>

datatype exn =
    Error string
  | TypeError string
  | ReferenceError string

fun typeof :: "jsval \<Rightarrow> string" where
  "typeof JUndefined = ''undefined''"
| "typeof JNull = ''object''"
| "typeof (JBool b) = ''boolean''"
| "typeof (JNum n) = ''number''"
| "typeof (JStr s) = ''string''"
| "typeof (JSym n) = ''symbol''"
| "typeof (JObj a) = ''object''"
| "typeof (JFun a) = ''function''"
| "typeof (JWeakMap a) = ''object''"

text \<open>The values that are objects: \<open>null\<close> is none, though its \<open>typeof\<close> is \<open>object\<close>.\<close>

definition is_object :: "jsval \<Rightarrow> bool" where
  "is_object v = (v \<noteq> JNull \<and> (typeof v = ''object'' \<or> typeof v = ''function''))"

section \<open>polyfill.js: the registry of private symbols\<close>

text \<open>
  \<^verbatim>\<open>const data = new Set()\<close>, with \<^verbatim>\<open>markPrivate = data.add.bind(data)\<close> and
  \<^verbatim>\<open>isPrivate = data.has.bind(data)\<close>. Only \<open>add\<close> and \<open>has\<close> are ever used, so
  the insertion order of the \<open>Set\<close> is not observable and a HOL set stands for it.
\<close>

definition markPrivate :: "jsval set \<Rightarrow> jsval \<Rightarrow> jsval set" where
  "markPrivate d s = insert s d"

definition isPrivate :: "jsval set \<Rightarrow> jsval \<Rightarrow> bool" where
  "isPrivate d key = (key \<in> d)"

subsection \<open>removePrivateKeys\<close>

text \<open>
  \<^verbatim>\<open>
  function removePrivateKeys(array) {
      let count = 0
      for (let i = 0; i < array.length; i++) {
          if (!isPrivate(array[i])) array[count++] = array[i]
      }
      array.length = count
      return array
  }
  \<close>
  The loop compacts the array in place; the final assignment to \<open>length\<close> truncates it.
  Both indices stay below the length, so no read or write is out of range.
\<close>

function removePrivateKeys_loop ::
  "jsval set \<Rightarrow> jsval list \<Rightarrow> nat \<Rightarrow> nat \<Rightarrow> jsval list \<times> nat" where
  "removePrivateKeys_loop d array count i =
     (if i < length array then
        (if \<not> isPrivate d (array ! i)
         then removePrivateKeys_loop d (array[count := array ! i]) (Suc count) (Suc i)
         else removePrivateKeys_loop d array count (Suc i))
      else (array, count))"
  by pat_completeness auto
termination
  by (relation "measure (\<lambda>(d, array, count, i). length array - i)") auto

definition removePrivateKeys :: "jsval set \<Rightarrow> jsval list \<Rightarrow> jsval list" where
  "removePrivateKeys d array =
     (case removePrivateKeys_loop d array 0 0 of (array', count) \<Rightarrow> take count array')"

subsection \<open>Symbol.private and Symbol.isPrivate\<close>

text \<open>
  The state of the script's closure and of the engine around it: the engine's
  allocator of fresh symbols with their descriptions, the set \<open>data\<close>, and the
  bindings of the global scope, which is where an identifier that no enclosing
  function declares is looked up.
\<close>

record realm =
  next_symbol :: nat
  description :: "nat \<Rightarrow> string option"
  data :: "jsval set"
  globals :: "string \<rightharpoonup> jsval"

text \<open>\<^verbatim>\<open>OldSymbol(name)\<close>: the built-in constructor returns a symbol never seen before.\<close>

definition OldSymbol :: "string option \<Rightarrow> realm \<Rightarrow> jsval \<times> realm" where
  "OldSymbol name r =
     (JSym (next_symbol r),
      r\<lparr>next_symbol := Suc (next_symbol r),
        description := (description r)(next_symbol r := name)\<rparr>)"

text \<open>
  \<^verbatim>\<open>
  private(name) {
      const sym = OldSymbol(name)
      markPrivate(sym)
      return sym
  }
  \<close>
\<close>

definition Symbol_private :: "string option \<Rightarrow> realm \<Rightarrow> jsval \<times> realm" where
  "Symbol_private name r =
     (case OldSymbol name r of
        (s, r') \<Rightarrow> (s, r'\<lparr>data := markPrivate (data r') s\<rparr>))"

text \<open>
  \<^verbatim>\<open>
  isPrivate(sym) {
      if (typeof sym === "symbol") return isPrivate(symbol)
      throw new TypeError("`sym` is not a symbol!")
  }
  \<close>
  The argument of the inner call is the identifier \<open>symbol\<close>, not the parameter
  \<open>sym\<close>. Neither the method nor the enclosing function declares it, so it is
  resolved in the global scope; the script is strict, and an unresolvable
  identifier throws a \<open>ReferenceError\<close>.
\<close>

definition Symbol_isPrivate :: "realm \<Rightarrow> jsval \<Rightarrow> exn + bool" where
  "Symbol_isPrivate r s =
     (if typeof s = ''symbol'' then
        (case globals r ''symbol'' of
           None \<Rightarrow> Inl (ReferenceError ''symbol is not defined'')
         | Some symbol \<Rightarrow> Inr (isPrivate (data r) symbol))
      else Inl (TypeError ''`sym` is not a symbol!''))"

subsection \<open>The patched reflection functions\<close>

text \<open>
  An ordinary object is given by its own properties, key and descriptor, in the
  order of the engine's own-keys enumeration. The three built-ins the script
  saves before patching (\<^verbatim>\<open>const getOwnPropertySymbols\<close>,
  \<^verbatim>\<open>const getOwnPropertyDescriptors\<close>, \<^verbatim>\<open>const ownKeys\<close>) read that table; each
  call returns a fresh array or object.
\<close>

datatype descriptor =
    DataDescriptor jsval bool bool bool
  | AccessorDescriptor jsval jsval bool bool

type_synonym props = "(jsval \<times> descriptor) list"

definition getOwnPropertySymbols :: "props \<Rightarrow> jsval list" where
  "getOwnPropertySymbols object = filter (\<lambda>k. typeof k = ''symbol'') (map fst object)"

definition getOwnPropertyDescriptors :: "props \<Rightarrow> (jsval \<rightharpoonup> descriptor)" where
  "getOwnPropertyDescriptors object = map_of object"

definition ownKeys :: "props \<Rightarrow> jsval list" where
  "ownKeys object = map fst object"

text \<open>
  \<^verbatim>\<open>
  getOwnPropertySymbols(object) {
      return removePrivateKeys(getOwnPropertySymbols(object))
  },
  getOwnPropertyDescriptors(object) {
      const result = getOwnPropertyDescriptors(object)
      const keys = getOwnPropertySymbols(object)
      for (let i = 0; i < keys.length; i++) {
          if (isPrivate(keys[i])) delete result[keys[i]]
      }
      return result
  },
  ownKeys(target) {
      return removePrivateKeys(ownKeys(target))
  },
  \<close>
  Inside the methods the names \<open>getOwnPropertySymbols\<close>, \<open>getOwnPropertyDescriptors\<close>
  and \<open>ownKeys\<close> are the saved built-ins, not the methods being defined.
\<close>

definition Object_getOwnPropertySymbols :: "jsval set \<Rightarrow> props \<Rightarrow> jsval list" where
  "Object_getOwnPropertySymbols d object =
     removePrivateKeys d (getOwnPropertySymbols object)"

fun delete_private_loop ::
  "jsval set \<Rightarrow> jsval list \<Rightarrow> (jsval \<rightharpoonup> descriptor) \<Rightarrow> (jsval \<rightharpoonup> descriptor)" where
  "delete_private_loop d [] result = result"
| "delete_private_loop d (k # keys) result =
     delete_private_loop d keys (if isPrivate d k then result(k := None) else result)"

definition Object_getOwnPropertyDescriptors ::
  "jsval set \<Rightarrow> props \<Rightarrow> (jsval \<rightharpoonup> descriptor)" where
  "Object_getOwnPropertyDescriptors d object =
     (let result = getOwnPropertyDescriptors object;
          keys = getOwnPropertySymbols object
      in delete_private_loop d keys result)"

definition Reflect_ownKeys :: "jsval set \<Rightarrow> props \<Rightarrow> jsval list" where
  "Reflect_ownKeys d target = removePrivateKeys d (ownKeys target)"

subsection \<open>filterProxy\<close>

text \<open>
  The heap gives each object its own properties. A trap is a function of the
  user: it receives its \<open>this\<close> value and the argument list, may change the heap,
  and returns a result of a type the script never inspects. The
  \<open>ownKeys\<close> trap is the one whose result the script reads, so it has its own
  field and returns either an exception or the array of keys.

  \<open>traps handler method\<close> is \<^verbatim>\<open>handler[method]\<close>, with \<open>None\<close> for \<open>null\<close> and
  \<open>undefined\<close> (the test is \<^verbatim>\<open>body != null\<close>).
\<close>

type_synonym heap = "jsval \<Rightarrow> props"

type_synonym 'r trap = "jsval \<Rightarrow> jsval list \<Rightarrow> heap \<Rightarrow> 'r \<times> heap"

record 'r handler =
  this_handler :: jsval
  traps :: "string \<rightharpoonup> 'r trap"
  ownKeys_body :: "(exn + jsval list) trap option"

text \<open>
  \<^verbatim>\<open>
  function forward(method) {
      return function () {
          const body = handler[method]
          if (body != null) return call(body, handler, ...arguments)
          return hooks[method](...arguments)
      }
  }
  function filter(method) {
      return function (target, key) {
          if (!isPrivate(key)) {
              const body = handler[method]
              if (body != null) return call(body, handler, ...arguments)
          }
          return hooks[method](...arguments)
      }
  }
  \<close>
  \<open>hooks\<close> holds the methods of the built-in \<open>Reflect\<close>, the operations without
  interception; for the twelve names used here they are the engine's own. The
  parameter \<open>key\<close> is the second argument, \<open>undefined\<close> when there is none.
\<close>

definition forward ::
  "'r handler \<Rightarrow> (string \<Rightarrow> jsval list \<Rightarrow> heap \<Rightarrow> 'r \<times> heap) \<Rightarrow> string \<Rightarrow>
   jsval list \<Rightarrow> heap \<Rightarrow> 'r \<times> heap" where
  "forward handler hooks method arguments h =
     (case traps handler method of
        Some body \<Rightarrow> body (this_handler handler) arguments h
      | None \<Rightarrow> hooks method arguments h)"

definition filter_key ::
  "jsval set \<Rightarrow> 'r handler \<Rightarrow> (string \<Rightarrow> jsval list \<Rightarrow> heap \<Rightarrow> 'r \<times> heap) \<Rightarrow> string \<Rightarrow>
   jsval list \<Rightarrow> heap \<Rightarrow> 'r \<times> heap" where
  "filter_key d handler hooks method arguments h =
     (let key = (if 1 < length arguments then arguments ! 1 else JUndefined) in
      if \<not> isPrivate d key then
        (case traps handler method of
           Some body \<Rightarrow> body (this_handler handler) arguments h
         | None \<Rightarrow> hooks method arguments h)
      else hooks method arguments h)"

text \<open>
  \<^verbatim>\<open>
  /** @this {keys} */
  function filterKey(_, i) {
      const key = this[i]
      if (isPrivate(key)) {
          throw new TypeError(
              "`ownKeys` on proxy: trap returned a private symbol as a key"
          )
      }
      return key
  }
  \<close>
\<close>

definition filterKey :: "jsval set \<Rightarrow> jsval list \<Rightarrow> nat \<Rightarrow> exn + jsval" where
  "filterKey d this i =
     (let key = (if i < length this then this ! i else JUndefined) in
      if isPrivate d key
      then Inl (TypeError ''`ownKeys` on proxy: trap returned a private symbol as a key'')
      else Inr key)"

text \<open>
  \<^verbatim>\<open>arrayFrom(lengthRef, filterKey, keys)\<close> is the built-in \<open>Array.from\<close> on an
  array-like that has a length and no elements: it calls the mapping function
  with \<open>this = keys\<close> on \<open>(undefined, 0)\<close>, \<open>(undefined, 1)\<close>, ... in turn, collects
  the results, and lets the first exception out.
\<close>

fun arrayFrom_loop :: "(nat \<Rightarrow> exn + jsval) \<Rightarrow> nat list \<Rightarrow> exn + jsval list" where
  "arrayFrom_loop mapFn [] = Inr []"
| "arrayFrom_loop mapFn (k # ks) =
     (case mapFn k of
        Inl e \<Rightarrow> Inl e
      | Inr v \<Rightarrow> (case arrayFrom_loop mapFn ks of
                    Inl e \<Rightarrow> Inl e
                  | Inr vs \<Rightarrow> Inr (v # vs)))"

definition arrayFrom ::
  "nat \<Rightarrow> (jsval list \<Rightarrow> nat \<Rightarrow> exn + jsval) \<Rightarrow> jsval list \<Rightarrow> exn + jsval list" where
  "arrayFrom len mapFn thisArg = arrayFrom_loop (mapFn thisArg) [0..<len]"

text \<open>
  \<^verbatim>\<open>
  ownKeys(target) {
      let body = handler.ownKeys
      if (body == null) return ownKeys(target)
      const keys = call(body, handler, target)
      lengthRef.length = keys.length
      return arrayFrom(lengthRef, filterKey, keys)
  },
  \<close>
  Here \<open>ownKeys(target)\<close> is again the saved built-in, which throws a
  \<open>TypeError\<close> on a value that is not an object.
\<close>

definition filter_ownKeys ::
  "jsval set \<Rightarrow> 'r handler \<Rightarrow> jsval list \<Rightarrow> heap \<Rightarrow> (exn + jsval list) \<times> heap" where
  "filter_ownKeys d handler arguments h =
     (let target = (if 0 < length arguments then arguments ! 0 else JUndefined) in
      case ownKeys_body handler of
        None \<Rightarrow>
          (if is_object target then Inr (ownKeys (h target))
           else Inl (TypeError ''Reflect.ownKeys called on non-object''), h)
      | Some body \<Rightarrow>
          (case body (this_handler handler) [target] h of
             (Inl e, h') \<Rightarrow> (Inl e, h')
           | (Inr keys, h') \<Rightarrow> (arrayFrom (length keys) (filterKey d) keys, h')))"

text \<open>The object \<open>filterProxy\<close> returns: one trap for each fundamental operation.\<close>

record 'r filtered =
  apply_trap :: "jsval list \<Rightarrow> heap \<Rightarrow> 'r \<times> heap"
  construct_trap :: "jsval list \<Rightarrow> heap \<Rightarrow> 'r \<times> heap"
  isExtensible_trap :: "jsval list \<Rightarrow> heap \<Rightarrow> 'r \<times> heap"
  preventExtensions_trap :: "jsval list \<Rightarrow> heap \<Rightarrow> 'r \<times> heap"
  getPrototypeOf_trap :: "jsval list \<Rightarrow> heap \<Rightarrow> 'r \<times> heap"
  setPrototypeOf_trap :: "jsval list \<Rightarrow> heap \<Rightarrow> 'r \<times> heap"
  defineProperty_trap :: "jsval list \<Rightarrow> heap \<Rightarrow> 'r \<times> heap"
  deleteProperty_trap :: "jsval list \<Rightarrow> heap \<Rightarrow> 'r \<times> heap"
  get_trap :: "jsval list \<Rightarrow> heap \<Rightarrow> 'r \<times> heap"
  getOwnPropertyDescriptor_trap :: "jsval list \<Rightarrow> heap \<Rightarrow> 'r \<times> heap"
  has_trap :: "jsval list \<Rightarrow> heap \<Rightarrow> 'r \<times> heap"
  set_trap :: "jsval list \<Rightarrow> heap \<Rightarrow> 'r \<times> heap"
  ownKeys_trap :: "jsval list \<Rightarrow> heap \<Rightarrow> (exn + jsval list) \<times> heap"

definition filterProxy ::
  "jsval set \<Rightarrow> (string \<Rightarrow> jsval list \<Rightarrow> heap \<Rightarrow> 'r \<times> heap) \<Rightarrow> 'r handler \<Rightarrow> 'r filtered" where
  "filterProxy d hooks handler =
     \<lparr>apply_trap = forward handler hooks ''apply'',
      construct_trap = forward handler hooks ''construct'',
      isExtensible_trap = forward handler hooks ''isExtensible'',
      preventExtensions_trap = forward handler hooks ''preventExtensions'',
      getPrototypeOf_trap = forward handler hooks ''getPrototypeOf'',
      setPrototypeOf_trap = forward handler hooks ''setPrototypeOf'',
      defineProperty_trap = filter_key d handler hooks ''defineProperty'',
      deleteProperty_trap = filter_key d handler hooks ''deleteProperty'',
      get_trap = filter_key d handler hooks ''get'',
      getOwnPropertyDescriptor_trap = filter_key d handler hooks ''getOwnPropertyDescriptor'',
      has_trap = filter_key d handler hooks ''has'',
      set_trap = filter_key d handler hooks ''set'',
      ownKeys_trap = filter_ownKeys d handler\<rparr>"

text \<open>
  \<^verbatim>\<open>
  global.Proxy = class Proxy {
      constructor(target, handler) {
          return new OldProxy(target, filterProxy(handler))
      }
  }
  \<close>
  The built-in proxy keeps the target and the handler it is given, and performs
  an operation on the proxy by calling the handler's trap of that name with the
  target in front of the operation's own arguments. What the engine then checks
  on the value a key-carrying trap returned is not the script's and is left out.
\<close>

record 'r proxy =
  proxy_target :: jsval
  proxy_handler :: "'r filtered"

definition Proxy ::
  "jsval set \<Rightarrow> (string \<Rightarrow> jsval list \<Rightarrow> heap \<Rightarrow> 'r \<times> heap) \<Rightarrow> jsval \<Rightarrow> 'r handler \<Rightarrow> 'r proxy" where
  "Proxy d hooks target handler =
     \<lparr>proxy_target = target, proxy_handler = filterProxy d hooks handler\<rparr>"

text \<open>
  The six operations that carry a key, by the name of their trap, on a proxy.
\<close>

definition key_trap :: "string \<Rightarrow> ('r filtered \<Rightarrow> jsval list \<Rightarrow> heap \<Rightarrow> 'r \<times> heap) option" where
  "key_trap method =
     (if method = ''defineProperty'' then Some defineProperty_trap
      else if method = ''deleteProperty'' then Some deleteProperty_trap
      else if method = ''get'' then Some get_trap
      else if method = ''getOwnPropertyDescriptor'' then Some getOwnPropertyDescriptor_trap
      else if method = ''has'' then Some has_trap
      else if method = ''set'' then Some set_trap
      else None)"

definition proxy_operation ::
  "'r proxy \<Rightarrow> string \<Rightarrow> jsval list \<Rightarrow> heap \<Rightarrow> ('r \<times> heap) option" where
  "proxy_operation p method args h =
     (case key_trap method of
        None \<Rightarrow> None
      | Some trap \<Rightarrow> Some (trap (proxy_handler p) (proxy_target p # args) h))"

text \<open>
  The enumeration of a proxy's own keys is the built-in's: it calls the
  \<open>ownKeys\<close> trap of the handler it was given and, when the trap returns, checks
  the returned list against the target before giving it out (entries that are
  not property keys, duplicates, keys of the target that are not configurable,
  a target that is not extensible), throwing a \<open>TypeError\<close> of its own when a check
  fails. Those checks are the engine's; they are the parameter \<open>validate\<close>,
  applied to the target, the list and the heap the trap left.
\<close>

type_synonym validator = "jsval \<Rightarrow> jsval list \<Rightarrow> heap \<Rightarrow> exn + jsval list"

definition proxy_ownKeys ::
  "validator \<Rightarrow> 'r proxy \<Rightarrow> heap \<Rightarrow> (exn + jsval list) \<times> heap" where
  "proxy_ownKeys validate p h =
     (case ownKeys_trap (proxy_handler p) [proxy_target p] h of
        (Inl e, h') \<Rightarrow> (Inl e, h')
      | (Inr keys, h') \<Rightarrow> (validate (proxy_target p) keys h', h'))"

section \<open>commonjs-helpers.js: the exporter\<close>

text \<open>
  Key names are strings, and \<open>String\<close> leaves a string as it is. A weak map is
  an object with an identity; what it holds is kept apart, by identity, so that
  two key names may share one weak map. The three built-in methods the script
  binds (\<^verbatim>\<open>weakHas\<close>, \<^verbatim>\<open>weakGet\<close>, \<^verbatim>\<open>weakSet\<close>) throw a \<open>TypeError\<close> on a receiver
  that is not a weak map, and \<open>set\<close> refuses a key that is not an object.
\<close>

type_synonym weakmaps = "nat \<Rightarrow> (jsval \<rightharpoonup> jsval)"

fun instanceof_WeakMap :: "jsval \<Rightarrow> bool" where
  "instanceof_WeakMap (JWeakMap a) = True"
| "instanceof_WeakMap v = False"

definition weakHas :: "weakmaps \<Rightarrow> jsval \<Rightarrow> jsval \<Rightarrow> exn + bool" where
  "weakHas w store obj =
     (case store of
        JWeakMap a \<Rightarrow> Inr (w a obj \<noteq> None)
      | _ \<Rightarrow> Inl (TypeError ''Method WeakMap.prototype.has called on incompatible receiver''))"

definition weakGet :: "weakmaps \<Rightarrow> jsval \<Rightarrow> jsval \<Rightarrow> exn + jsval" where
  "weakGet w store obj =
     (case store of
        JWeakMap a \<Rightarrow> Inr (case w a obj of Some v \<Rightarrow> v | None \<Rightarrow> JUndefined)
      | _ \<Rightarrow> Inl (TypeError ''Method WeakMap.prototype.get called on incompatible receiver''))"

definition weakSet :: "weakmaps \<Rightarrow> jsval \<Rightarrow> jsval \<Rightarrow> jsval \<Rightarrow> exn + weakmaps" where
  "weakSet w store obj v =
     (case store of
        JWeakMap a \<Rightarrow>
          (if is_object obj then Inr (w(a := (w a)(obj \<mapsto> v)))
           else Inl (TypeError ''Invalid value used as weak map key''))
      | _ \<Rightarrow> Inl (TypeError ''Method WeakMap.prototype.set called on incompatible receiver''))"

definition mapGet :: "('k \<rightharpoonup> jsval) \<Rightarrow> 'k \<Rightarrow> jsval" where
  "mapGet m k = (case m k of Some v \<Rightarrow> v | None \<Rightarrow> JUndefined)"

text \<open>
  The variables of \<open>makeExportedKeys\<close> that the returned function closes over:
  \<^verbatim>\<open>
  var fallback = new Set(all)
  var resolved = new Map()
  var exported = new Map()
  \<close>
\<close>

record exporter =
  fallback :: "string set"
  resolved :: "string \<rightharpoonup> string set"
  exported :: "string \<rightharpoonup> jsval"

text \<open>
  \<^verbatim>\<open>
  function addExported(key) {
      if (!exported.has(key)) {
          var value = internalRefs[key]
          if (!(value instanceof WeakMap)) {
              throw new Error("Missing private key: #" + key)
          }
          exported.set(key, value)
      }
  }
  \<close>
  \<open>internalRefs key\<close> is \<^verbatim>\<open>internalRefs[key]\<close>, \<open>undefined\<close> where the object has no
  such property.
\<close>

definition addExported :: "(string \<Rightarrow> jsval) \<Rightarrow> string \<Rightarrow> exporter \<Rightarrow> exn + exporter" where
  "addExported internalRefs key st =
     (if exported st key = None then
        (let value = internalRefs key in
         if \<not> instanceof_WeakMap value
         then Inl (Error (''Missing private key: #'' @ key))
         else Inr (st\<lparr>exported := (exported st)(key \<mapsto> value)\<rparr>))
      else Inr st)"

fun forEach_addExported ::
  "(string \<Rightarrow> jsval) \<Rightarrow> string list \<Rightarrow> exporter \<Rightarrow> exn + exporter" where
  "forEach_addExported internalRefs [] st = Inr st"
| "forEach_addExported internalRefs (key # keys) st =
     (case addExported internalRefs key st of
        Inl e \<Rightarrow> Inl e
      | Inr st' \<Rightarrow> forEach_addExported internalRefs keys st')"

text \<open>
  \<^verbatim>\<open>
  all.forEach(addExported)
  Object.keys(scoped).forEach(function (key) {
      var value = new Set(fallback)
      scoped[key].forEach(addExported)
      scoped[key].forEach(value.add, value)
      resolved.set(req.resolve(key), value)
  })
  \<close>
  \<open>scoped\<close> is given as the list of its keys, in the order of \<open>Object.keys\<close>, each
  with its array; \<open>resolve\<close> is \<^verbatim>\<open>req.resolve\<close>, the resolution of \<open>require\<close>, which
  returns a path or throws when it finds no module for the key. The exception
  is not caught, so it ends the setup.
\<close>

fun forEach_scoped ::
  "(string \<Rightarrow> jsval) \<Rightarrow> (string \<Rightarrow> exn + string) \<Rightarrow> (string \<times> string list) list \<Rightarrow>
   exporter \<Rightarrow> exn + exporter" where
  "forEach_scoped internalRefs resolve [] st = Inr st"
| "forEach_scoped internalRefs resolve ((key, names) # rest) st =
     (case forEach_addExported internalRefs names st of
        Inl e \<Rightarrow> Inl e
      | Inr st' \<Rightarrow>
          (let value = fallback st' \<union> set names in
           case resolve key of
             Inl e \<Rightarrow> Inl e
           | Inr path \<Rightarrow>
               forEach_scoped internalRefs resolve rest
                 (st'\<lparr>resolved := (resolved st')(path \<mapsto> value)\<rparr>)))"

definition makeExportedKeys ::
  "(string \<Rightarrow> jsval) \<Rightarrow> (string \<Rightarrow> exn + string) \<Rightarrow> string list \<Rightarrow>
   (string \<times> string list) list \<Rightarrow> exn + exporter" where
  "makeExportedKeys internalRefs resolve all scoped =
     (let st = \<lparr>fallback = set all, resolved = Map.empty, exported = Map.empty\<rparr> in
      case forEach_addExported internalRefs all st of
        Inl e \<Rightarrow> Inl e
      | Inr st' \<Rightarrow> forEach_scoped internalRefs resolve scoped st')"

text \<open>
  The function \<open>makeExportedKeys\<close> returns, applied to the variables it closes
  over:
  \<^verbatim>\<open>
  return function (filename, TE, keys) {
      var allowed = mapGet(resolved, filename) || fallback
      var refs = new S()
      for (var i = 0; i < keys.length; i++) {
          var key = toString(keys[i])
          if (!setHas(allowed, key)) return key
          setAdd(refs, key)
      }
      function transact(O, key) { ... }
      return { get: ..., set: ... }
  }
  \<close>
  A session is the returned object: the set \<open>refs\<close> and the map \<open>exported\<close> its
  two methods close over.
\<close>

record session =
  refs :: "string set"
  stores :: "string \<rightharpoonup> jsval"

definition allowed :: "exporter \<Rightarrow> string \<Rightarrow> string set" where
  "allowed b filename =
     (case resolved b filename of Some value \<Rightarrow> value | None \<Rightarrow> fallback b)"

fun authorize :: "string set \<Rightarrow> string set \<Rightarrow> string list \<Rightarrow> string + string set" where
  "authorize permitted rs [] = Inr rs"
| "authorize permitted rs (key # keys) =
     (if key \<notin> permitted then Inl key
      else authorize permitted (insert key rs) keys)"

definition factory :: "exporter \<Rightarrow> string \<Rightarrow> string list \<Rightarrow> string + session" where
  "factory b filename keys =
     (case authorize (allowed b filename) {} keys of
        Inl key \<Rightarrow> Inl key
      | Inr rs \<Rightarrow> Inr \<lparr>refs = rs, stores = exported b\<rparr>)"

text \<open>
  \<^verbatim>\<open>
  function transact(O, key) {
      // Protect against accidental or malicious entry.
      if (!setHas(refs, key)) throw new E("Invalid private key: #" + key)
      var store = mapGet(exported, key)
      if (O == null || typeof O !== "object" && typeof O !== "function") {
          throw new TE("Private key #" + key + " cannot be referenced from non-object " + toString(O) + "!")
      }
      if (!weakHas(store, O)) {
          throw new TE("Private key #" + key + " does not exist on " + toString(O) + "!")
      }
      return store
  }
  return {
      get: function (O, K) { return weakGet(transact(O, K), O) },
      set: function (O, K, V) { weakSet(transact(O, K), O, V); return V }
  }
  \<close>
  \<open>E\<close> is \<open>Error\<close> and \<open>TE\<close> the caller's \<open>TypeError\<close>. \<open>toString\<close> is the
  script's \<^verbatim>\<open>var toString = String\<close>. On a value that is not an object the
  built-in returns the engine's rendering of it. On an object it runs the
  object's own conversion methods, which are code of the object's author: they
  return a string or throw, and an object without any makes the engine throw.
  The message of an error is built before the error is, so an exception of
  \<open>toString\<close> leaves \<open>transact\<close> in place of the error being built.
\<close>

record conversion =
  primitive_string :: "jsval \<Rightarrow> string"
  object_string :: "jsval \<Rightarrow> exn + string"

definition toString :: "conversion \<Rightarrow> jsval \<Rightarrow> exn + string" where
  "toString conv v =
     (if is_object v then object_string conv v else Inr (primitive_string conv v))"

definition transact ::
  "conversion \<Rightarrow> session \<Rightarrow> weakmaps \<Rightarrow> jsval \<Rightarrow> string \<Rightarrow> exn + jsval" where
  "transact conv s w obj key =
     (if key \<notin> refs s then Inl (Error (''Invalid private key: #'' @ key))
      else
        (let store = mapGet (stores s) key in
         if obj = JNull \<or> obj = JUndefined \<or>
            (typeof obj \<noteq> ''object'' \<and> typeof obj \<noteq> ''function'')
         then
           (case toString conv obj of
              Inl e \<Rightarrow> Inl e
            | Inr str \<Rightarrow>
                Inl (TypeError (''Private key #'' @ key @
                       '' cannot be referenced from non-object '' @ str @ ''!'')))
         else
           (case weakHas w store obj of
              Inl e \<Rightarrow> Inl e
            | Inr present \<Rightarrow>
                if \<not> present
                then
                  (case toString conv obj of
                     Inl e \<Rightarrow> Inl e
                   | Inr str \<Rightarrow>
                       Inl (TypeError (''Private key #'' @ key @
                              '' does not exist on '' @ str @ ''!'')))
                else Inr store)))"

definition session_get ::
  "conversion \<Rightarrow> session \<Rightarrow> weakmaps \<Rightarrow> jsval \<Rightarrow> string \<Rightarrow> exn + jsval" where
  "session_get conv s w obj key =
     (case transact conv s w obj key of
        Inl e \<Rightarrow> Inl e
      | Inr store \<Rightarrow> weakGet w store obj)"

definition session_set ::
  "conversion \<Rightarrow> session \<Rightarrow> weakmaps \<Rightarrow> jsval \<Rightarrow> string \<Rightarrow> jsval \<Rightarrow>
   (exn + jsval) \<times> weakmaps" where
  "session_set conv s w obj key v =
     (case transact conv s w obj key of
        Inl e \<Rightarrow> (Inl e, w)
      | Inr store \<Rightarrow>
          (case weakSet w store obj v of
             Inl e \<Rightarrow> (Inl e, w)
           | Inr w' \<Rightarrow> (Inr v, w')))"

section \<open>commonjs-helpers.js: the importer\<close>

text \<open>
  \<^verbatim>\<open>
  function getExportedKeys(source, TE, RE) {
      var result = String(source)
      return {
          init: function (mod, filename, keys) {
              if (mod == null || typeof mod !== "object") throw new TE("`mod` is not a module instance!")
              var exports = mod.exports
              if (exports == null || typeof exports !== "object") throw new TE("`mod` is not a module instance!")
              var exportedKeys = exports.__exportedKeys
              if (typeof exportedKeys === "function") {
                  result = exportedKeys(filename, TE, keys)
              }
              if (typeof result === "string") throw new RE("Private key #" + keys[0] + " could not be referenced from '" + result + "'!")
          },
          get: function (O, key) {
              if (typeof result === "string") throw new RE("Private key #" + key + " could not be referenced from '" + result + "'!")
              return result.get(O, key)
          },
          set: function (O, key, value) {
              if (typeof result === "string") throw new RE("Private key #" + key + " could not be referenced from '" + result + "'!")
              return result.set(O, key, value)
          },
      }
  }
  \<close>
  This is the first of the two functions of that name in the file, the one that
  works with \<open>makeExportedKeys\<close>. The variable \<open>result\<close> is the whole state of the
  importer: a string, or the session the exporter's function returned. The
  environment gives the properties of objects and what a function value does
  when called as \<^verbatim>\<open>exportedKeys(filename, TE, keys)\<close>.
\<close>

datatype binding = BString string | BSession session

record module_env =
  property :: "jsval \<Rightarrow> string \<Rightarrow> jsval"
  call_function :: "jsval \<Rightarrow> string \<Rightarrow> string list \<Rightarrow> binding"

definition getExportedKeys :: "string \<Rightarrow> binding" where
  "getExportedKeys source = BString source"

definition not_referenced :: "string \<Rightarrow> string \<Rightarrow> exn" where
  "not_referenced key result =
     ReferenceError (''Private key #'' @ key @ '' could not be referenced from '' @
                     [CHR 0x27] @ result @ [CHR 0x27] @ ''!'')"

definition first_key :: "string list \<Rightarrow> string" where
  "first_key keys = (case keys of [] \<Rightarrow> ''undefined'' | k # ks \<Rightarrow> k)"

definition importer_init ::
  "module_env \<Rightarrow> binding \<Rightarrow> jsval \<Rightarrow> string \<Rightarrow> string list \<Rightarrow> (exn + unit) \<times> binding" where
  "importer_init env result m filename keys =
     (if m = JNull \<or> m = JUndefined \<or> typeof m \<noteq> ''object''
      then (Inl (TypeError ''`mod` is not a module instance!''), result)
      else
        (let exports = property env m ''exports'' in
         if exports = JNull \<or> exports = JUndefined \<or> typeof exports \<noteq> ''object''
         then (Inl (TypeError ''`mod` is not a module instance!''), result)
         else
           (let exportedKeys = property env exports ''__exportedKeys'';
                result' = (if typeof exportedKeys = ''function''
                           then call_function env exportedKeys filename keys
                           else result)
            in case result' of
                 BString s \<Rightarrow> (Inl (not_referenced (first_key keys) s), result')
               | BSession sess \<Rightarrow> (Inr (), result'))))"

definition importer_get ::
  "conversion \<Rightarrow> binding \<Rightarrow> weakmaps \<Rightarrow> jsval \<Rightarrow> string \<Rightarrow> exn + jsval" where
  "importer_get conv result w obj key =
     (case result of
        BString s \<Rightarrow> Inl (not_referenced key s)
      | BSession sess \<Rightarrow> session_get conv sess w obj key)"

definition importer_set ::
  "conversion \<Rightarrow> binding \<Rightarrow> weakmaps \<Rightarrow> jsval \<Rightarrow> string \<Rightarrow> jsval \<Rightarrow>
   (exn + jsval) \<times> weakmaps" where
  "importer_set conv result w obj key v =
     (case result of
        BString s \<Rightarrow> (Inl (not_referenced key s), w)
      | BSession sess \<Rightarrow> session_set conv sess w obj key v)"

section \<open>Notions used in the statements\<close>

text \<open>
  The key names a setup refers to, in the order \<open>makeExportedKeys\<close> visits them;
  the map that holds, for the names of a set, the value \<open>internalRefs\<close> has for
  them; the entries of \<open>scoped\<close> that resolve to a given consumer; and the two
  shape tests of \<open>init\<close> together with the presence of the exporter's function.
\<close>

definition referenced :: "string list \<Rightarrow> (string \<times> string list) list \<Rightarrow> string list" where
  "referenced all scoped = all @ concat (map snd scoped)"

definition exported_on :: "(string \<Rightarrow> jsval) \<Rightarrow> string set \<Rightarrow> (string \<rightharpoonup> jsval)" where
  "exported_on internalRefs D k = (if k \<in> D then Some (internalRefs k) else None)"

definition entries_for ::
  "(string \<Rightarrow> exn + string) \<Rightarrow> (string \<times> string list) list \<Rightarrow> string \<Rightarrow>
   string list list" where
  "entries_for resolve scoped filename =
     map snd (filter (\<lambda>entry. resolve (fst entry) = Inr filename) scoped)"

definition has_hook :: "module_env \<Rightarrow> jsval \<Rightarrow> bool" where
  "has_hook env m =
     (is_object m \<and> typeof m = ''object'' \<and>
      is_object (property env m ''exports'') \<and>
      typeof (property env m ''exports'') = ''object'' \<and>
      typeof (property env (property env m ''exports'') ''__exportedKeys'') = ''function'')"

definition hook_result :: "module_env \<Rightarrow> jsval \<Rightarrow> string \<Rightarrow> string list \<Rightarrow> binding" where
  "hook_result env m filename keys =
     call_function env (property env (property env m ''exports'') ''__exportedKeys'')
       filename keys"

section \<open>Concrete inputs\<close>

text \<open>
  The scenarios of the specification, as closed terms. One private key
  \<open>JSym 0\<close> has been created; the target \<open>JObj 0\<close> owns a public property
  \<open>pub\<close> and a property keyed by the private symbol; the user's handler has a
  \<open>get\<close> trap that answers \<open>1\<close> and an \<open>ownKeys\<close> trap that lists both keys of the
  target. The stand-in for the built-in \<open>Reflect\<close> answers \<open>undefined\<close>.
\<close>

definition realm0 :: realm where
  "realm0 = \<lparr>next_symbol = 0, description = (\<lambda>n. None), data = {}, globals = Map.empty\<rparr>"

definition scenario_data :: "jsval set" where
  "scenario_data = {JSym 0}"

definition scenario_object :: props where
  "scenario_object =
     [(JStr ''pub'', DataDescriptor (JNum 7) True True True),
      (JSym 0, DataDescriptor (JNum 8) True True True),
      (JSym 1, DataDescriptor (JNum 9) True True True)]"

definition scenario_heap :: heap where
  "scenario_heap v =
     (if v = JObj 0
      then [(JStr ''pub'', DataDescriptor (JNum 7) True True True),
            (JSym 0, DataDescriptor (JNum 8) True True True)]
      else [])"

definition scenario_hooks :: "string \<Rightarrow> jsval list \<Rightarrow> heap \<Rightarrow> jsval \<times> heap" where
  "scenario_hooks method arguments h = (JUndefined, h)"

definition scenario_get :: "jsval trap" where
  "scenario_get this arguments h = (JNum 1, h)"

definition scenario_ownKeys :: "(exn + jsval list) trap" where
  "scenario_ownKeys this arguments h = (Inr [JStr ''pub'', JSym 0], h)"

definition scenario_handler :: "jsval handler" where
  "scenario_handler =
     \<lparr>this_handler = JObj 1,
      traps = [''get'' \<mapsto> scenario_get],
      ownKeys_body = Some scenario_ownKeys\<rparr>"

text \<open>
  A second handler lists the public key only. The target is taken to be frozen:
  for such a target the engine accepts from the trap exactly the lists that
  name each own key of the target once.
\<close>

definition scenario_public_ownKeys :: "(exn + jsval list) trap" where
  "scenario_public_ownKeys this arguments h = (Inr [JStr ''pub''], h)"

definition scenario_public_handler :: "jsval handler" where
  "scenario_public_handler =
     \<lparr>this_handler = JObj 3,
      traps = Map.empty,
      ownKeys_body = Some scenario_public_ownKeys\<rparr>"

definition scenario_frozen :: validator where
  "scenario_frozen target keys h =
     (if distinct keys \<and> set keys = set (ownKeys (h target)) then Inr keys
      else Inl (TypeError ''`ownKeys` on proxy: trap result does not match the keys of the non-extensible target''))"

text \<open>
  The exporter of the fourth scenario holds weak maps for \<open>elem\<close>, \<open>count\<close> and
  \<open>extra\<close>, exposes \<open>elem\<close> to every module and \<open>count\<close> to \<open>./update\<close> only; the
  object \<open>JObj 5\<close> has an \<open>elem\<close> field. \<open>./update\<close> and \<open>./update.js\<close> name the
  same module, and there is no module \<open>./no-such-module\<close>. The importing side
  sees a module \<open>JObj 10\<close> whose exports \<open>JObj 11\<close> carry that exporter's function
  as \<open>__exportedKeys\<close>.
\<close>

definition scenario_refs :: "string \<Rightarrow> jsval" where
  "scenario_refs k =
     (if k = ''elem'' then JWeakMap 0
      else if k = ''count'' then JWeakMap 1
      else if k = ''extra'' then JWeakMap 2
      else JUndefined)"

definition scenario_resolve :: "string \<Rightarrow> exn + string" where
  "scenario_resolve name =
     (if name = ''./update'' \<or> name = ''./update.js'' then Inr ''/app/update.js''
      else if name = ''./no-such-module''
      then Inl (Error ''Cannot find module ./no-such-module'')
      else Inr name)"

definition scenario_scoped :: "(string \<times> string list) list" where
  "scenario_scoped = [(''./update'', [''count''])]"

definition scenario_exporter :: exporter where
  "scenario_exporter =
     \<lparr>fallback = {''elem''},
      resolved = [''/app/update.js'' \<mapsto> {''elem'', ''count''}],
      exported = exported_on scenario_refs {''elem'', ''count''}\<rparr>"

definition scenario_session :: session where
  "scenario_session = \<lparr>refs = {''elem''}, stores = exported scenario_exporter\<rparr>"

definition scenario_weakmaps :: weakmaps where
  "scenario_weakmaps a = (if a = 0 then [JObj 5 \<mapsto> JStr ''div''] else Map.empty)"

text \<open>
  The same exporter set up with two keys of \<open>scoped\<close> for the one module:
  \<open>count\<close> under \<open>./update\<close> and \<open>extra\<close> under \<open>./update.js\<close>.
\<close>

definition alias_scoped :: "(string \<times> string list) list" where
  "alias_scoped = [(''./update'', [''count'']), (''./update.js'', [''extra''])]"

definition alias_exporter :: exporter where
  "alias_exporter =
     \<lparr>fallback = {''elem''},
      resolved = [''/app/update.js'' \<mapsto> {''elem'', ''extra''}],
      exported = exported_on scenario_refs {''elem'', ''count'', ''extra''}\<rparr>"

text \<open>
  The engine's rendering of the values that are not objects, with numbers of an
  integral value in decimal and symbols without a description. Among the
  objects, \<open>JObj 7\<close> has no conversion method at all (its prototype is \<open>null\<close>)
  and the \<open>toString\<close> method of \<open>JObj 8\<close> throws; every other object has the
  default \<open>toString\<close>.
\<close>

fun decimal :: "nat \<Rightarrow> string" where
  "decimal n =
     (if n < 10 then [''0123456789'' ! n]
      else decimal (n div 10) @ [''0123456789'' ! (n mod 10)])"

declare decimal.simps [simp del]

definition scenario_primitive :: "jsval \<Rightarrow> string" where
  "scenario_primitive v =
     (case v of
        JUndefined \<Rightarrow> ''undefined''
      | JNull \<Rightarrow> ''null''
      | JBool b \<Rightarrow> (if b then ''true'' else ''false'')
      | JNum n \<Rightarrow> (if n < 0 then ''-'' @ decimal (nat (- n)) else decimal (nat n))
      | JStr s \<Rightarrow> s
      | JSym n \<Rightarrow> ''Symbol()''
      | _ \<Rightarrow> [])"

definition scenario_object_string :: "jsval \<Rightarrow> exn + string" where
  "scenario_object_string v =
     (if v = JObj 7 then Inl (TypeError ''Cannot convert object to primitive value'')
      else if v = JObj 8 then Inl (Error ''boom'')
      else Inr ''[object Object]'')"

definition scenario_conversion :: conversion where
  "scenario_conversion =
     \<lparr>primitive_string = scenario_primitive, object_string = scenario_object_string\<rparr>"

definition scenario_call :: "jsval \<Rightarrow> string \<Rightarrow> string list \<Rightarrow> binding" where
  "scenario_call f filename keys =
     (case factory scenario_exporter filename keys of
        Inl key \<Rightarrow> BString key
      | Inr s \<Rightarrow> BSession s)"

definition scenario_property :: "jsval \<Rightarrow> string \<Rightarrow> jsval" where
  "scenario_property v name =
     (if v = JObj 10 \<and> name = ''exports'' then JObj 11
      else if v = JObj 11 \<and> name = ''__exportedKeys'' then JFun 12
      else JUndefined)"

definition scenario_env :: module_env where
  "scenario_env = \<lparr>property = scenario_property, call_function = scenario_call\<rparr>"

section \<open>Properties of polyfill.js\<close>

lemma removePrivateKeys_loop_inv:
  "count \<le> i \<Longrightarrow> i \<le> length array \<Longrightarrow>
   removePrivateKeys_loop d array count i = (array', count') \<Longrightarrow>
   take count' array' =
     take count array @ filter (\<lambda>k. \<not> isPrivate d k) (drop i array)"
proof (induction d array count i arbitrary: array' count'
       rule: removePrivateKeys_loop.induct)
  case (1 d array count i)
  show ?case
  proof (cases "i < length array")
    case False
    with "1.prems" show ?thesis by simp
  next
    case inb: True
    then have dr: "drop i array = array ! i # drop (Suc i) array"
      by (simp add: Cons_nth_drop_Suc)
    show ?thesis
    proof (cases "isPrivate d (array ! i)")
      case True
      with inb "1.prems" have
        "removePrivateKeys_loop d array count (Suc i) = (array', count')"
        by simp
      with "1.IH"(2)[OF inb _ _ _ this] inb True "1.prems" dr show ?thesis
        by simp
    next
      case False
      let ?a = "array[count := array ! i]"
      from inb False "1.prems" have
        run: "removePrivateKeys_loop d ?a (Suc count) (Suc i) = (array', count')"
        by simp
      from "1.prems" inb have c: "count < length array" by simp
      have "take count' array' =
            take (Suc count) ?a @ filter (\<lambda>k. \<not> isPrivate d k) (drop (Suc i) ?a)"
        using "1.IH"(1)[OF inb False _ _ run] "1.prems" inb by simp
      moreover have "take (Suc count) ?a = take count array @ [array ! i]"
        using c by (simp add: take_Suc_conv_app_nth)
      moreover have "drop (Suc i) ?a = drop (Suc i) array"
        using "1.prems" by simp
      ultimately show ?thesis using dr False by simp
    qed
  qed
qed

lemma removePrivateKeys_filter:
  "removePrivateKeys d array = filter (\<lambda>k. \<not> isPrivate d k) array"
proof -
  obtain array' count' where
    run: "removePrivateKeys_loop d array 0 0 = (array', count')"
    by (cases "removePrivateKeys_loop d array 0 0")
  from removePrivateKeys_loop_inv[OF _ _ run] run show ?thesis
    by (simp add: removePrivateKeys_def)
qed

subsection \<open>The patched reflection functions\<close>

lemma delete_private_loop_eq:
  "delete_private_loop d keys result =
     (\<lambda>k. if k \<in> set keys \<and> isPrivate d k then None else result k)"
  by (induction keys arbitrary: result) (auto simp: fun_eq_iff)

lemma map_of_no_key: "k \<notin> fst ` set object \<Longrightarrow> map_of object k = None"
  by (simp add: map_of_eq_None_iff)

text \<open>
  Claim C10. \<open>Reflect.ownKeys\<close> and \<open>Object.getOwnPropertySymbols\<close> return what the
  built-in returns with every private key removed and the other keys in their
  order; \<open>Object.getOwnPropertyDescriptors\<close> returns the built-in's record
  without the entries whose key is a private symbol, and with every other entry
  as it was.
\<close>

theorem patched_reflection_censors_private_keys:
  "Reflect_ownKeys d object = filter (\<lambda>k. \<not> isPrivate d k) (ownKeys object) \<and>
   Object_getOwnPropertySymbols d object =
     filter (\<lambda>k. \<not> isPrivate d k) (getOwnPropertySymbols object) \<and>
   Object_getOwnPropertyDescriptors d object =
     (\<lambda>k. if typeof k = ''symbol'' \<and> isPrivate d k then None
          else getOwnPropertyDescriptors object k)"
proof -
  have "Object_getOwnPropertyDescriptors d object k =
        (if typeof k = ''symbol'' \<and> isPrivate d k then None
         else getOwnPropertyDescriptors object k)" for k
  proof (cases "k \<in> fst ` set object")
    case True
    then show ?thesis
      by (auto simp: Object_getOwnPropertyDescriptors_def delete_private_loop_eq
          getOwnPropertySymbols_def)
  next
    case False
    then show ?thesis
      by (auto simp: Object_getOwnPropertyDescriptors_def delete_private_loop_eq
          getOwnPropertySymbols_def getOwnPropertyDescriptors_def map_of_no_key)
  qed
  then show ?thesis
    by (simp add: Reflect_ownKeys_def Object_getOwnPropertySymbols_def
        removePrivateKeys_filter fun_eq_iff)
qed

theorem patched_reflection_witness:
  "Reflect_ownKeys scenario_data scenario_object = [JStr ''pub'', JSym 1] \<and>
   Object_getOwnPropertySymbols scenario_data scenario_object = [JSym 1] \<and>
   Object_getOwnPropertyDescriptors scenario_data scenario_object (JSym 0) = None \<and>
   Object_getOwnPropertyDescriptors scenario_data scenario_object (JSym 1) =
     Some (DataDescriptor (JNum 9) True True True) \<and>
   Object_getOwnPropertyDescriptors scenario_data scenario_object (JStr ''pub'') =
     Some (DataDescriptor (JNum 7) True True True)"
  using patched_reflection_censors_private_keys [of scenario_data scenario_object]
  by (simp add: scenario_data_def scenario_object_def isPrivate_def ownKeys_def
      getOwnPropertySymbols_def getOwnPropertyDescriptors_def)

subsection \<open>Symbol.isPrivate\<close>

lemma Symbol_isPrivate_not_symbol:
  "typeof s \<noteq> ''symbol'' \<Longrightarrow>
   Symbol_isPrivate r s = Inl (TypeError ''`sym` is not a symbol!'')"
  by (simp add: Symbol_isPrivate_def)

lemma Symbol_isPrivate_ignores_argument:
  "typeof s = ''symbol'' \<Longrightarrow> typeof s' = ''symbol'' \<Longrightarrow>
   Symbol_isPrivate r s = Symbol_isPrivate r s'"
  by (simp add: Symbol_isPrivate_def)

lemma Symbol_private_marks:
  "Symbol_private name r = (k, r') \<Longrightarrow> isPrivate (data r') k \<and> typeof k = ''symbol''"
  by (auto simp: Symbol_private_def OldSymbol_def markPrivate_def isPrivate_def)

text \<open>
  Claim C3. The registry does hold the created key, and a non-symbol is refused
  with a \<open>TypeError\<close>; but on a symbol \<open>Symbol.isPrivate\<close> never looks at its
  argument. In a global scope that binds no \<open>symbol\<close>, the call on the key that
  \<open>Symbol.private\<close> has just returned throws a \<open>ReferenceError\<close> instead of
  returning \<open>true\<close>.
\<close>

theorem Symbol_isPrivate_created_key_throws:
  "Symbol_isPrivate (snd (Symbol_private (Some ''x'') realm0))
     (fst (Symbol_private (Some ''x'') realm0)) =
   Inl (ReferenceError ''symbol is not defined'')"
  by (simp add: Symbol_isPrivate_def Symbol_private_def OldSymbol_def realm0_def)

subsection \<open>The filtered handler\<close>

lemma key_trap_cases:
  "method \<in> {''defineProperty'', ''deleteProperty'', ''get'',
             ''getOwnPropertyDescriptor'', ''has'', ''set''} \<Longrightarrow>
   \<exists>trap. key_trap method = Some trap \<and>
     (\<forall>handler. trap (filterProxy d hooks handler) = filter_key d handler hooks method)"
  by (auto simp: key_trap_def filterProxy_def)

text \<open>
  Claim C1. On a proxy made by \<open>Proxy\<close>, each of the six operations that carry a
  key, called with a private key, is the built-in operation on the target and
  the arguments as they came: the result does not mention the user's handler, so
  no trap of it runs, and the same call on a proxy made with any other handler
  gives the same result. With a key that is not private the user's trap, when there
  is one, is called with \<open>this\<close> the handler and the same arguments; when there
  is none the built-in operation is used.
\<close>

theorem filtered_proxy_key_operations:
  assumes "method \<in> {''defineProperty'', ''deleteProperty'', ''get'',
                      ''getOwnPropertyDescriptor'', ''has'', ''set''}"
  shows "proxy_operation (Proxy d hooks target handler) method (key # rest) h =
         Some (if isPrivate d key then hooks method (target # key # rest) h
               else (case traps handler method of
                       Some body \<Rightarrow> body (this_handler handler) (target # key # rest) h
                     | None \<Rightarrow> hooks method (target # key # rest) h)) \<and>
         (isPrivate d key \<longrightarrow>
            proxy_operation (Proxy d hooks target handler) method (key # rest) h =
            proxy_operation (Proxy d hooks target handler') method (key # rest) h)"
proof -
  from key_trap_cases[OF assms] obtain trap where
    t: "key_trap method = Some trap"
       "\<And>hd. trap (filterProxy d hooks hd) = filter_key d hd hooks method"
    by blast
  then show ?thesis
    by (simp add: proxy_operation_def Proxy_def filter_key_def)
qed

theorem filtered_proxy_key_operations_witness:
  "proxy_operation (Proxy scenario_data scenario_hooks (JObj 0) scenario_handler)
     ''get'' [JSym 0, JObj 2] scenario_heap = Some (JUndefined, scenario_heap) \<and>
   proxy_operation (Proxy scenario_data scenario_hooks (JObj 0) scenario_handler)
     ''get'' [JStr ''pub'', JObj 2] scenario_heap = Some (JNum 1, scenario_heap) \<and>
   proxy_operation (Proxy scenario_data scenario_hooks (JObj 0) scenario_handler)
     ''has'' [JStr ''pub''] scenario_heap = Some (JUndefined, scenario_heap)"
  using
    filtered_proxy_key_operations [of "''get''" scenario_data scenario_hooks "JObj 0"
      scenario_handler "JSym 0" "[JObj 2]" scenario_heap]
    filtered_proxy_key_operations [of "''get''" scenario_data scenario_hooks "JObj 0"
      scenario_handler "JStr ''pub''" "[JObj 2]" scenario_heap]
    filtered_proxy_key_operations [of "''has''" scenario_data scenario_hooks "JObj 0"
      scenario_handler "JStr ''pub''" "[]" scenario_heap]
  by (simp add: scenario_data_def scenario_hooks_def scenario_handler_def
      scenario_get_def isPrivate_def)

subsection \<open>The filtered enumeration\<close>

lemma arrayFrom_loop_uniform:
  "\<forall>i\<in>set js. mapFn i = Inl e \<or> mapFn i = Inr (g i) \<Longrightarrow>
   arrayFrom_loop mapFn js =
     (if \<exists>i\<in>set js. mapFn i = Inl e then Inl e else Inr (map g js))"
  by (induction js) (auto split: sum.splits)

lemma arrayFrom_filterKey:
  assumes "len = length keys"
  shows "arrayFrom len (filterKey d) keys =
     (if \<exists>k\<in>set keys. isPrivate d k
      then Inl (TypeError ''`ownKeys` on proxy: trap returned a private symbol as a key'')
      else Inr keys)"
proof -
  let ?e = "TypeError ''`ownKeys` on proxy: trap returned a private symbol as a key''"
  have u: "\<forall>i\<in>set [0..<length keys].
             filterKey d keys i = Inl ?e \<or> filterKey d keys i = Inr (keys ! i)"
    by (simp add: filterKey_def Let_def)
  have "(\<exists>i<length keys. isPrivate d (keys ! i)) = (\<exists>k\<in>set keys. isPrivate d k)"
    by (metis in_set_conv_nth)
  then have ex: "(\<exists>i\<in>set [0..<length keys]. filterKey d keys i = Inl ?e) =
            (\<exists>k\<in>set keys. isPrivate d k)"
    by (auto simp: filterKey_def Let_def)
  show ?thesis
    unfolding assms arrayFrom_def arrayFrom_loop_uniform[OF u] ex
    by (simp add: map_nth)
qed

text \<open>
  Claim C2, as the code has it. When the user's \<open>ownKeys\<close> trap returns the list
  \<open>L\<close>, the trap of the filtered handler returns \<open>L\<close> itself if \<open>L\<close> holds no
  private key, and throws the \<open>TypeError\<close> if \<open>L\<close> holds any private key, whether
  or not the target owns it. Nothing is ever removed from \<open>L\<close>. The enumeration
  on the proxy therefore throws that \<open>TypeError\<close> in the second case, and in the
  first is what the engine's own checks make of \<open>L\<close>: they may still refuse it.
\<close>

theorem filtered_ownKeys_rejects_private_keys:
  assumes "ownKeys_body handler = Some body"
    and "body (this_handler handler) [target] h = (Inr L, h')"
  shows "ownKeys_trap (filterProxy d hooks handler) [target] h =
           (if \<exists>k\<in>set L. isPrivate d k
            then Inl (TypeError ''`ownKeys` on proxy: trap returned a private symbol as a key'')
            else Inr L, h') \<and>
         proxy_ownKeys validate (Proxy d hooks target handler) h =
           (if \<exists>k\<in>set L. isPrivate d k
            then Inl (TypeError ''`ownKeys` on proxy: trap returned a private symbol as a key'')
            else validate target L h', h')"
  using assms
  by (simp add: proxy_ownKeys_def Proxy_def filterProxy_def filter_ownKeys_def
      arrayFrom_filterKey del: One_nat_def)

theorem filtered_ownKeys_witness:
  "proxy_ownKeys scenario_frozen (Proxy {JSym 5} scenario_hooks (JObj 0) scenario_handler)
     scenario_heap = (Inr [JStr ''pub'', JSym 0], scenario_heap) \<and>
   ownKeys_trap (filterProxy scenario_data scenario_hooks scenario_public_handler) [JObj 0]
     scenario_heap = (Inr [JStr ''pub''], scenario_heap) \<and>
   proxy_ownKeys scenario_frozen
     (Proxy scenario_data scenario_hooks (JObj 0) scenario_public_handler) scenario_heap =
     (Inl (TypeError ''`ownKeys` on proxy: trap result does not match the keys of the non-extensible target''),
      scenario_heap)"
  using
    filtered_ownKeys_rejects_private_keys [of scenario_handler scenario_ownKeys
      "JObj 0" scenario_heap "[JStr ''pub'', JSym 0]" scenario_heap "{JSym 5}" scenario_hooks
      scenario_frozen]
    filtered_ownKeys_rejects_private_keys [of scenario_public_handler scenario_public_ownKeys
      "JObj 0" scenario_heap "[JStr ''pub'']" scenario_heap scenario_data scenario_hooks
      scenario_frozen]
  by (simp add: scenario_handler_def scenario_ownKeys_def scenario_public_handler_def
      scenario_public_ownKeys_def scenario_data_def scenario_frozen_def scenario_heap_def
      ownKeys_def isPrivate_def)

text \<open>
  The claim as it was written fails on the third scenario of the specification:
  the trap lists the public key and a private key that the target does own. The
  claim has the result \<open>[pub]\<close>; the filtered trap throws, and so does the
  enumeration on the proxy.
\<close>

theorem filtered_ownKeys_counterexample:
  "JSym 0 \<in> scenario_data \<and>
   JSym 0 \<in> set (ownKeys (scenario_heap (JObj 0))) \<and>
   scenario_ownKeys (this_handler scenario_handler) [JObj 0] scenario_heap =
     (Inr [JStr ''pub'', JSym 0], scenario_heap) \<and>
   fst (ownKeys_trap (filterProxy scenario_data scenario_hooks scenario_handler) [JObj 0]
          scenario_heap) =
     Inl (TypeError ''`ownKeys` on proxy: trap returned a private symbol as a key'') \<and>
   fst (proxy_ownKeys scenario_frozen
          (Proxy scenario_data scenario_hooks (JObj 0) scenario_handler) scenario_heap) =
     Inl (TypeError ''`ownKeys` on proxy: trap returned a private symbol as a key'') \<and>
   fst (proxy_ownKeys scenario_frozen
          (Proxy scenario_data scenario_hooks (JObj 0) scenario_handler) scenario_heap) \<noteq>
     Inr [JStr ''pub'']"
  by (simp add: proxy_ownKeys_def Proxy_def filterProxy_def filter_ownKeys_def
      arrayFrom_filterKey scenario_handler_def scenario_ownKeys_def scenario_data_def
      scenario_heap_def ownKeys_def isPrivate_def)

section \<open>Properties of commonjs-helpers.js\<close>

subsection \<open>What the setup computes\<close>

lemma find_append_first:
  "find P (xs @ ys) = (case find P xs of Some x \<Rightarrow> Some x | None \<Rightarrow> find P ys)"
  by (induction xs) auto

lemma find_None_all: "find P xs = None \<Longrightarrow> \<forall>x\<in>set xs. \<not> P x"
  by (simp add: find_None_iff)

lemma addExported_char:
  assumes "\<forall>k\<in>D. instanceof_WeakMap (internalRefs k)"
    and "exported st = exported_on internalRefs D"
  shows "addExported internalRefs key st =
     (if \<not> instanceof_WeakMap (internalRefs key)
      then Inl (Error (''Missing private key: #'' @ key))
      else Inr (st\<lparr>exported := exported_on internalRefs (insert key D)\<rparr>))"
proof (cases "key \<in> D")
  case True
  with assms have has: "exported st key \<noteq> None" and wm: "instanceof_WeakMap (internalRefs key)"
    by (auto simp: exported_on_def)
  from has have run: "addExported internalRefs key st = Inr st"
    by (auto simp: addExported_def)
  from True have "insert key D = D" by auto
  then have "st\<lparr>exported := exported_on internalRefs (insert key D)\<rparr> =
             st\<lparr>exported := exported st\<rparr>"
    using assms(2) by simp
  then have "st\<lparr>exported := exported_on internalRefs (insert key D)\<rparr> = st"
    by simp
  with run wm show ?thesis by simp
next
  case False
  with assms have "exported st key = None" by (simp add: exported_on_def)
  moreover have "(exported_on internalRefs D)(key \<mapsto> internalRefs key) =
                 exported_on internalRefs (insert key D)"
    by (auto simp: exported_on_def fun_eq_iff)
  ultimately show ?thesis using assms(2)
    by (simp add: addExported_def Let_def)
qed

lemma forEach_addExported_char:
  assumes "\<forall>k\<in>D. instanceof_WeakMap (internalRefs k)"
    and "exported st = exported_on internalRefs D"
  shows "forEach_addExported internalRefs keys st =
     (case find (\<lambda>k. \<not> instanceof_WeakMap (internalRefs k)) keys of
        Some k \<Rightarrow> Inl (Error (''Missing private key: #'' @ k))
      | None \<Rightarrow> Inr (st\<lparr>exported := exported_on internalRefs (D \<union> set keys)\<rparr>))"
  using assms
proof (induction keys arbitrary: st D)
  case Nil
  then show ?case by simp
next
  case (Cons key keys)
  show ?case
  proof (cases "instanceof_WeakMap (internalRefs key)")
    case False
    then show ?thesis
      by (simp add: addExported_char[OF Cons.prems])
  next
    case True
    let ?st = "st\<lparr>exported := exported_on internalRefs (insert key D)\<rparr>"
    have a: "\<forall>k\<in>insert key D. instanceof_WeakMap (internalRefs k)"
      using True Cons.prems(1) by simp
    have b: "exported ?st = exported_on internalRefs (insert key D)" by simp
    have c: "insert key D \<union> set keys = D \<union> set (key # keys)" by auto
    have d: "?st\<lparr>exported := exported_on internalRefs (D \<union> set (key # keys))\<rparr> =
             st\<lparr>exported := exported_on internalRefs (D \<union> set (key # keys))\<rparr>"
      by simp
    have "forEach_addExported internalRefs (key # keys) st =
          forEach_addExported internalRefs keys ?st"
      using True by (simp add: addExported_char[OF Cons.prems])
    also have "\<dots> =
      (case find (\<lambda>k. \<not> instanceof_WeakMap (internalRefs k)) keys of
        Some k \<Rightarrow> Inl (Error (''Missing private key: #'' @ k))
      | None \<Rightarrow> Inr (?st\<lparr>exported := exported_on internalRefs (insert key D \<union> set keys)\<rparr>))"
      by (rule Cons.IH[OF a b])
    also have "\<dots> =
      (case find (\<lambda>k. \<not> instanceof_WeakMap (internalRefs k)) (key # keys) of
        Some k \<Rightarrow> Inl (Error (''Missing private key: #'' @ k))
      | None \<Rightarrow> Inr (st\<lparr>exported := exported_on internalRefs (D \<union> set (key # keys))\<rparr>))"
      unfolding c d using True by simp
    finally show ?thesis .
  qed
qed

lemma forEach_addExported_fields:
  assumes "\<forall>k\<in>D. instanceof_WeakMap (internalRefs k)"
  shows "forEach_addExported internalRefs keys
           \<lparr>fallback = F, resolved = R, exported = exported_on internalRefs D\<rparr> =
     (case find (\<lambda>k. \<not> instanceof_WeakMap (internalRefs k)) keys of
        Some k \<Rightarrow> Inl (Error (''Missing private key: #'' @ k))
      | None \<Rightarrow> Inr \<lparr>fallback = F, resolved = R,
                      exported = exported_on internalRefs (D \<union> set keys)\<rparr>)"
proof -
  let ?st = "\<lparr>fallback = F, resolved = R, exported = exported_on internalRefs D\<rparr>"
  have e: "exported ?st = exported_on internalRefs D" by simp
  have u: "?st\<lparr>exported := X\<rparr> = \<lparr>fallback = F, resolved = R, exported = X\<rparr>" for X
    by simp
  show ?thesis
    unfolding forEach_addExported_char[OF assms e] u ..
qed

lemma forEach_scoped_ok:
  assumes "\<forall>k\<in>D. instanceof_WeakMap (internalRefs k)"
    and "\<forall>k\<in>set (concat (map snd scoped)). instanceof_WeakMap (internalRefs k)"
    and "\<forall>entry\<in>set scoped. \<exists>path. resolve (fst entry) = Inr path"
  shows "forEach_scoped internalRefs resolve scoped
           \<lparr>fallback = F, resolved = R, exported = exported_on internalRefs D\<rparr> =
         Inr \<lparr>fallback = F,
              resolved = R ++ map_of (rev (map (\<lambda>entry. (projr (resolve (fst entry)),
                                                        F \<union> set (snd entry))) scoped)),
              exported = exported_on internalRefs
                           (D \<union> set (concat (map snd scoped)))\<rparr>"
  using assms
proof (induction scoped arbitrary: R D)
  case Nil
  then show ?case by simp
next
  case (Cons entry rest)
  obtain key names where entry: "entry = (key, names)" by (cases entry)
  let ?P = "\<lambda>k. \<not> instanceof_WeakMap (internalRefs k)"
  let ?f = "\<lambda>entry. (projr (resolve (fst entry)), F \<union> set (snd entry))"
  from Cons.prems(3) entry obtain path where path: "resolve key = Inr path" by auto
  from Cons.prems(2) entry have none: "find ?P names = None"
    by (simp add: find_None_iff)
  note names = forEach_addExported_fields[OF Cons.prems(1), of names F R]
  have a: "\<forall>k\<in>D \<union> set names. instanceof_WeakMap (internalRefs k)"
    using Cons.prems(1,2) entry by auto
  have b: "\<forall>k\<in>set (concat (map snd rest)). instanceof_WeakMap (internalRefs k)"
    using Cons.prems(2) by simp
  have c: "\<forall>entry\<in>set rest. \<exists>path. resolve (fst entry) = Inr path"
    using Cons.prems(3) by simp
  have run: "forEach_scoped internalRefs resolve (entry # rest)
               \<lparr>fallback = F, resolved = R, exported = exported_on internalRefs D\<rparr> =
             forEach_scoped internalRefs resolve rest
               \<lparr>fallback = F, resolved = R(path \<mapsto> F \<union> set names),
                exported = exported_on internalRefs (D \<union> set names)\<rparr>"
    by (simp add: entry names none path)
  have res: "R(path \<mapsto> F \<union> set names) ++ map_of (rev (map ?f rest)) =
             R ++ map_of (rev (map ?f (entry # rest)))"
    by (auto simp: entry path fun_eq_iff map_add_def split: option.splits)
  have dom: "D \<union> set names \<union> set (concat (map snd rest)) =
             D \<union> set (concat (map snd (entry # rest)))"
    by (auto simp: entry)
  show ?case
    unfolding run Cons.IH[OF a b c] res dom ..
qed

lemma forEach_scoped_fail:
  assumes "\<forall>k\<in>D. instanceof_WeakMap (internalRefs k)"
    and "\<not> ((\<forall>k\<in>set (concat (map snd scoped)). instanceof_WeakMap (internalRefs k)) \<and>
            (\<forall>entry\<in>set scoped. \<exists>path. resolve (fst entry) = Inr path))"
  shows "\<exists>e. forEach_scoped internalRefs resolve scoped
                \<lparr>fallback = F, resolved = R, exported = exported_on internalRefs D\<rparr> = Inl e \<and>
             ((\<exists>k\<in>set (concat (map snd scoped)).
                 \<not> instanceof_WeakMap (internalRefs k) \<and>
                 e = Error (''Missing private key: #'' @ k)) \<or>
              (\<exists>entry\<in>set scoped. resolve (fst entry) = Inl e))"
  using assms
proof (induction scoped arbitrary: R D)
  case Nil
  then show ?case by simp
next
  case (Cons entry rest)
  obtain key names where entry: "entry = (key, names)" by (cases entry)
  let ?P = "\<lambda>k. \<not> instanceof_WeakMap (internalRefs k)"
  note names = forEach_addExported_fields[OF Cons.prems(1), of names F R]
  show ?case
  proof (cases "find ?P names")
    case (Some k)
    then have "k \<in> set names" "?P k" by (auto simp: find_Some_iff)
    with Some show ?thesis
      by (auto simp: entry names)
  next
    case None
    then have wm: "\<forall>k\<in>set names. instanceof_WeakMap (internalRefs k)"
      by (simp add: find_None_iff)
    show ?thesis
    proof (cases "resolve key")
      case (Inl e)
      then show ?thesis
        by (auto simp: entry names None)
    next
      case (Inr path)
      have a: "\<forall>k\<in>D \<union> set names. instanceof_WeakMap (internalRefs k)"
        using Cons.prems(1) wm by auto
      have b: "\<not> ((\<forall>k\<in>set (concat (map snd rest)). instanceof_WeakMap (internalRefs k)) \<and>
                  (\<forall>entry\<in>set rest. \<exists>path. resolve (fst entry) = Inr path))"
        using Cons.prems(2) wm Inr by (auto simp: entry)
      have run: "forEach_scoped internalRefs resolve (entry # rest)
                   \<lparr>fallback = F, resolved = R, exported = exported_on internalRefs D\<rparr> =
                 forEach_scoped internalRefs resolve rest
                   \<lparr>fallback = F, resolved = R(path \<mapsto> F \<union> set names),
                    exported = exported_on internalRefs (D \<union> set names)\<rparr>"
        by (simp add: entry names None Inr)
      from Cons.IH[OF a b, of "R(path \<mapsto> F \<union> set names)"]
      obtain e where
        e: "forEach_scoped internalRefs resolve rest
              \<lparr>fallback = F, resolved = R(path \<mapsto> F \<union> set names),
               exported = exported_on internalRefs (D \<union> set names)\<rparr> = Inl e"
           "(\<exists>k\<in>set (concat (map snd rest)).
               \<not> instanceof_WeakMap (internalRefs k) \<and>
               e = Error (''Missing private key: #'' @ k)) \<or>
            (\<exists>entry\<in>set rest. resolve (fst entry) = Inl e)"
        by blast
      from e(2) have
        "(\<exists>k\<in>set (concat (map snd (entry # rest))).
            \<not> instanceof_WeakMap (internalRefs k) \<and>
            e = Error (''Missing private key: #'' @ k)) \<or>
         (\<exists>entry\<in>set (entry # rest). resolve (fst entry) = Inl e)"
        by auto
      then have "forEach_scoped internalRefs resolve (entry # rest)
                   \<lparr>fallback = F, resolved = R, exported = exported_on internalRefs D\<rparr> =
                 Inl e \<and>
                 ((\<exists>k\<in>set (concat (map snd (entry # rest))).
                     \<not> instanceof_WeakMap (internalRefs k) \<and>
                     e = Error (''Missing private key: #'' @ k)) \<or>
                  (\<exists>entry\<in>set (entry # rest). resolve (fst entry) = Inl e))"
        using e(1) unfolding run by (rule conjI[rotated])
      then show ?thesis by - (rule exI[where x = e], assumption)
    qed
  qed
qed

lemma makeExportedKeys_start:
  "makeExportedKeys internalRefs resolve all scoped =
     (case find (\<lambda>k. \<not> instanceof_WeakMap (internalRefs k)) all of
        Some k \<Rightarrow> Inl (Error (''Missing private key: #'' @ k))
      | None \<Rightarrow>
          forEach_scoped internalRefs resolve scoped
            \<lparr>fallback = set all, resolved = Map.empty,
             exported = exported_on internalRefs (set all)\<rparr>)"
proof -
  have e0: "Map.empty = exported_on internalRefs {}"
    by (simp add: exported_on_def fun_eq_iff)
  have a0: "\<forall>k\<in>{}. instanceof_WeakMap (internalRefs k)" by simp
  note all = forEach_addExported_fields[OF a0, of all "set all" Map.empty,
      unfolded Un_empty_left, folded e0]
  show ?thesis
    by (simp add: makeExportedKeys_def all split: option.splits)
qed

lemma makeExportedKeys_ok:
  assumes "\<forall>k\<in>set (referenced all scoped). instanceof_WeakMap (internalRefs k)"
    and "\<forall>entry\<in>set scoped. \<exists>path. resolve (fst entry) = Inr path"
  shows "makeExportedKeys internalRefs resolve all scoped =
         Inr \<lparr>fallback = set all,
              resolved = map_of (rev (map (\<lambda>entry. (projr (resolve (fst entry)),
                                                   set all \<union> set (snd entry))) scoped)),
              exported = exported_on internalRefs (set (referenced all scoped))\<rparr>"
proof -
  let ?P = "\<lambda>k. \<not> instanceof_WeakMap (internalRefs k)"
  from assms(1) have none: "find ?P all = None"
    by (simp add: find_None_iff referenced_def)
  have a: "\<forall>k\<in>set all. instanceof_WeakMap (internalRefs k)"
    using assms(1) by (simp add: referenced_def)
  have b: "\<forall>k\<in>set (concat (map snd scoped)). instanceof_WeakMap (internalRefs k)"
    using assms(1) by (simp add: referenced_def)
  have dom: "set all \<union> set (concat (map snd scoped)) = set (referenced all scoped)"
    by (simp add: referenced_def)
  show ?thesis
    unfolding makeExportedKeys_start none option.case
      forEach_scoped_ok[OF a b assms(2)] dom empty_map_add ..
qed

lemma makeExportedKeys_fail:
  assumes "\<not> ((\<forall>k\<in>set (referenced all scoped). instanceof_WeakMap (internalRefs k)) \<and>
              (\<forall>entry\<in>set scoped. \<exists>path. resolve (fst entry) = Inr path))"
  shows "\<exists>e. makeExportedKeys internalRefs resolve all scoped = Inl e \<and>
             ((\<exists>k\<in>set (referenced all scoped).
                 \<not> instanceof_WeakMap (internalRefs k) \<and>
                 e = Error (''Missing private key: #'' @ k)) \<or>
              (\<exists>entry\<in>set scoped. resolve (fst entry) = Inl e))"
proof (cases "find (\<lambda>k. \<not> instanceof_WeakMap (internalRefs k)) all")
  case (Some k)
  then have "k \<in> set all" "\<not> instanceof_WeakMap (internalRefs k)"
    by (auto simp: find_Some_iff)
  with Some show ?thesis
    by (auto simp: makeExportedKeys_start referenced_def)
next
  case None
  then have a: "\<forall>k\<in>set all. instanceof_WeakMap (internalRefs k)"
    by (simp add: find_None_iff)
  with assms have
    b: "\<not> ((\<forall>k\<in>set (concat (map snd scoped)). instanceof_WeakMap (internalRefs k)) \<and>
            (\<forall>entry\<in>set scoped. \<exists>path. resolve (fst entry) = Inr path))"
    by (auto simp: referenced_def)
  from forEach_scoped_fail[OF a b, of "set all" Map.empty] obtain e where
    e: "forEach_scoped internalRefs resolve scoped
          \<lparr>fallback = set all, resolved = Map.empty,
           exported = exported_on internalRefs (set all)\<rparr> = Inl e"
       "(\<exists>k\<in>set (concat (map snd scoped)).
           \<not> instanceof_WeakMap (internalRefs k) \<and>
           e = Error (''Missing private key: #'' @ k)) \<or>
        (\<exists>entry\<in>set scoped. resolve (fst entry) = Inl e)"
    by blast
  from e(2) have
    "(\<exists>k\<in>set (referenced all scoped).
        \<not> instanceof_WeakMap (internalRefs k) \<and>
        e = Error (''Missing private key: #'' @ k)) \<or>
     (\<exists>entry\<in>set scoped. resolve (fst entry) = Inl e)"
    by (auto simp: referenced_def)
  with e(1) None show ?thesis
    by (auto simp: makeExportedKeys_start)
qed

lemma makeExportedKeys_Inr:
  assumes "makeExportedKeys internalRefs resolve all scoped = Inr b"
  shows "(\<forall>k\<in>set (referenced all scoped). instanceof_WeakMap (internalRefs k)) \<and>
         (\<forall>entry\<in>set scoped. \<exists>path. resolve (fst entry) = Inr path) \<and>
         b = \<lparr>fallback = set all,
              resolved = map_of (rev (map (\<lambda>entry. (projr (resolve (fst entry)),
                                                   set all \<union> set (snd entry))) scoped)),
              exported = exported_on internalRefs (set (referenced all scoped))\<rparr>"
proof (cases "(\<forall>k\<in>set (referenced all scoped). instanceof_WeakMap (internalRefs k)) \<and>
              (\<forall>entry\<in>set scoped. \<exists>path. resolve (fst entry) = Inr path)")
  case True
  with makeExportedKeys_ok[of all scoped internalRefs resolve] assms show ?thesis
    by simp
next
  case False
  from makeExportedKeys_fail[OF False] assms show ?thesis by auto
qed

lemma resolved_last:
  assumes "\<forall>entry\<in>set scoped. \<exists>path. resolve (fst entry) = Inr path"
  shows "map_of (rev (map (\<lambda>entry. (projr (resolve (fst entry)), A \<union> set (snd entry))) scoped))
           filename =
         (if entries_for resolve scoped filename = [] then None
          else Some (A \<union> set (last (entries_for resolve scoped filename))))"
  using assms
proof (induction scoped rule: rev_induct)
  case Nil
  then show ?case by (simp add: entries_for_def)
next
  case (snoc x xs)
  then obtain path where path: "resolve (fst x) = Inr path" by auto
  from snoc have IH:
    "map_of (rev (map (\<lambda>entry. (projr (resolve (fst entry)), A \<union> set (snd entry))) xs))
       filename =
     (if entries_for resolve xs filename = [] then None
      else Some (A \<union> set (last (entries_for resolve xs filename))))"
    by simp
  show ?case
  proof (cases "path = filename")
    case True
    with path show ?thesis
      by (simp add: entries_for_def)
  next
    case False
    with path IH show ?thesis
      by (simp add: entries_for_def)
  qed
qed

lemma allowed_char:
  assumes "makeExportedKeys internalRefs resolve all scoped = Inr b"
  shows "allowed b filename =
           (if entries_for resolve scoped filename = [] then set all
            else set all \<union> set (last (entries_for resolve scoped filename)))"
proof -
  from makeExportedKeys_Inr[OF assms] have
    ok: "\<forall>entry\<in>set scoped. \<exists>path. resolve (fst entry) = Inr path"
    and b: "fallback b = set all"
      "resolved b = map_of (rev (map (\<lambda>entry. (projr (resolve (fst entry)),
                                                set all \<union> set (snd entry))) scoped))"
    by simp_all
  show ?thesis
    by (simp add: allowed_def b resolved_last[OF ok])
qed

lemma entries_for_referenced:
  "entries_for resolve scoped filename \<noteq> [] \<Longrightarrow>
   set (last (entries_for resolve scoped filename)) \<subseteq> set (referenced all scoped)"
proof -
  assume ne: "entries_for resolve scoped filename \<noteq> []"
  then have "last (entries_for resolve scoped filename) \<in>
             set (entries_for resolve scoped filename)"
    by (rule last_in_set)
  then have "last (entries_for resolve scoped filename) \<in> snd ` set scoped"
    by (auto simp: entries_for_def)
  then show ?thesis by (auto simp: referenced_def)
qed

lemma allowed_has_store:
  assumes mk: "makeExportedKeys internalRefs resolve all scoped = Inr b"
    and k: "key \<in> allowed b filename"
  shows "\<exists>a. internalRefs key = JWeakMap a \<and> exported b key = Some (JWeakMap a)"
proof -
  from makeExportedKeys_Inr[OF mk] have
    wm: "\<forall>k\<in>set (referenced all scoped). instanceof_WeakMap (internalRefs k)"
    and ex: "exported b = exported_on internalRefs (set (referenced all scoped))"
    by simp_all
  have "key \<in> set (referenced all scoped)"
  proof (cases "entries_for resolve scoped filename = []")
    case True
    with k show ?thesis by (simp add: allowed_char[OF mk] referenced_def)
  next
    case False
    with k entries_for_referenced[OF False, of all] show ?thesis
      by (auto simp: allowed_char[OF mk] referenced_def)
  qed
  moreover from this wm have "instanceof_WeakMap (internalRefs key)"
    by blast
  then obtain a where "internalRefs key = JWeakMap a"
    by (cases "internalRefs key") simp_all
  ultimately show ?thesis by (simp add: ex exported_on_def)
qed

lemma authorize_char:
  "authorize permitted rs keys =
     (case find (\<lambda>k. k \<notin> permitted) keys of
        Some k \<Rightarrow> Inl k
      | None \<Rightarrow> Inr (rs \<union> set keys))"
  by (induction keys arbitrary: rs) (auto split: option.splits)

lemma factory_char:
  "factory b filename keys =
     (case find (\<lambda>k. k \<notin> allowed b filename) keys of
        Some k \<Rightarrow> Inl k
      | None \<Rightarrow> Inr \<lparr>refs = set keys, stores = exported b\<rparr>)"
  by (simp add: factory_def authorize_char split: option.splits)

lemma session_refs_allowed:
  assumes "factory b filename keys = Inr s"
  shows "refs s = set keys \<and> stores s = exported b \<and> set keys \<subseteq> allowed b filename"
proof -
  from assms have none: "find (\<lambda>k. k \<notin> allowed b filename) keys = None"
    and s: "s = \<lparr>refs = set keys, stores = exported b\<rparr>"
    by (auto simp: factory_char split: option.splits)
  from find_None_all[OF none] s show ?thesis by auto
qed

subsection \<open>The scenario, evaluated\<close>

lemma scenario_setup:
  "makeExportedKeys scenario_refs scenario_resolve [''elem''] scenario_scoped =
     Inr scenario_exporter"
proof -
  have "\<forall>k\<in>set (referenced [''elem''] scenario_scoped).
          instanceof_WeakMap (scenario_refs k)"
    by (simp add: referenced_def scenario_scoped_def scenario_refs_def)
  moreover have "\<forall>entry\<in>set scenario_scoped. \<exists>path. scenario_resolve (fst entry) = Inr path"
    by (simp add: scenario_scoped_def scenario_resolve_def)
  ultimately show ?thesis
    by (simp add: makeExportedKeys_ok)
       (simp add: referenced_def scenario_scoped_def scenario_resolve_def
          scenario_exporter_def)
qed

lemma alias_setup:
  "makeExportedKeys scenario_refs scenario_resolve [''elem''] alias_scoped =
     Inr alias_exporter"
proof -
  have "\<forall>k\<in>set (referenced [''elem''] alias_scoped).
          instanceof_WeakMap (scenario_refs k)"
    by (simp add: referenced_def alias_scoped_def scenario_refs_def)
  moreover have "\<forall>entry\<in>set alias_scoped. \<exists>path. scenario_resolve (fst entry) = Inr path"
    by (simp add: alias_scoped_def scenario_resolve_def)
  ultimately show ?thesis
    by (simp add: makeExportedKeys_ok)
       (auto simp: referenced_def alias_scoped_def scenario_resolve_def
          alias_exporter_def fun_eq_iff)
qed

lemma scenario_allowed:
  "allowed scenario_exporter ''/app/other.js'' = {''elem''} \<and>
   allowed scenario_exporter ''/app/update.js'' = {''elem'', ''count''}"
  by (simp add: allowed_def scenario_exporter_def)

lemma scenario_factory:
  "factory scenario_exporter ''/app/other.js'' [''elem''] = Inr scenario_session"
  by (simp add: factory_char scenario_allowed scenario_session_def)

lemma scenario_has_hook: "has_hook scenario_env (JObj 10)"
  by (simp add: has_hook_def scenario_env_def scenario_property_def is_object_def)



subsection \<open>Exporter setup\<close>




subsection \<open>The broker factory\<close>

text \<open>
  Claim C5. The factory goes through the requested names in order and returns
  the first one outside the allow-list, or a session for exactly the requested
  names (\<open>factory_char\<close>); and the allow-list of a consumer is the global list,
  united with the list \<open>scoped\<close> has for it when exactly one key of \<open>scoped\<close>
  resolves to it (\<open>allowed_char\<close>). When two keys of \<open>scoped\<close> resolve to the same
  consumer, the second \<open>resolved.set\<close> replaces the set of the first: the names
  exported under the first key are refused to the module they were exported
  to. Here \<open>count\<close> is exported to \<open>./update\<close> and \<open>extra\<close> to \<open>./update.js\<close>, one
  module; its allow-list lacks \<open>count\<close>, and the factory returns \<open>count\<close> as
  unauthorized.
\<close>

theorem factory_refuses_key_of_replaced_entry:
  "makeExportedKeys scenario_refs scenario_resolve [''elem''] alias_scoped =
     Inr alias_exporter \<and>
   scenario_resolve ''./update'' = Inr ''/app/update.js'' \<and>
   scenario_resolve ''./update.js'' = Inr ''/app/update.js'' \<and>
   allowed alias_exporter ''/app/update.js'' = {''elem'', ''extra''} \<and>
   factory alias_exporter ''/app/update.js'' [''count''] = Inl ''count''"
  by (simp add: alias_setup)
     (simp add: scenario_resolve_def allowed_def alias_exporter_def factory_char)

subsection \<open>The session\<close>

lemma is_object_iff:
  "is_object obj =
     (\<not> (obj = JNull \<or> obj = JUndefined \<or>
         (typeof obj \<noteq> ''object'' \<and> typeof obj \<noteq> ''function'')))"
  by (cases obj) (simp_all add: is_object_def)

lemma session_invalid_key:
  "key \<notin> refs s \<Longrightarrow>
   session_get conv s w obj key = Inl (Error (''Invalid private key: #'' @ key)) \<and>
   session_set conv s w obj key v = (Inl (Error (''Invalid private key: #'' @ key)), w)"
  by (simp add: session_get_def session_set_def transact_def)

lemma session_non_object:
  "key \<in> refs s \<Longrightarrow> \<not> is_object obj \<Longrightarrow>
   session_get conv s w obj key =
     Inl (TypeError (''Private key #'' @ key @ '' cannot be referenced from non-object '' @
                     primitive_string conv obj @ ''!'')) \<and>
   session_set conv s w obj key v =
     (Inl (TypeError (''Private key #'' @ key @ '' cannot be referenced from non-object '' @
                      primitive_string conv obj @ ''!'')), w)"
  by (simp add: session_get_def session_set_def transact_def is_object_iff Let_def
      toString_def)

lemma session_missing_field:
  "key \<in> refs s \<Longrightarrow> is_object obj \<Longrightarrow> stores s key = Some (JWeakMap a) \<Longrightarrow>
   w a obj = None \<Longrightarrow> object_string conv obj = Inr str \<Longrightarrow>
   session_get conv s w obj key =
     Inl (TypeError (''Private key #'' @ key @ '' does not exist on '' @ str @ ''!'')) \<and>
   session_set conv s w obj key v =
     (Inl (TypeError (''Private key #'' @ key @ '' does not exist on '' @ str @ ''!'')), w)"
  by (auto simp: session_get_def session_set_def transact_def is_object_iff Let_def
      mapGet_def weakHas_def toString_def)

lemma session_conversion_throws:
  "key \<in> refs s \<Longrightarrow> is_object obj \<Longrightarrow> stores s key = Some (JWeakMap a) \<Longrightarrow>
   w a obj = None \<Longrightarrow> object_string conv obj = Inl e \<Longrightarrow>
   session_get conv s w obj key = Inl e \<and>
   session_set conv s w obj key v = (Inl e, w)"
  by (auto simp: session_get_def session_set_def transact_def is_object_iff Let_def
      mapGet_def weakHas_def toString_def)

lemma session_present:
  "key \<in> refs s \<Longrightarrow> is_object obj \<Longrightarrow> stores s key = Some (JWeakMap a) \<Longrightarrow>
   w a obj = Some u \<Longrightarrow>
   session_get conv s w obj key = Inr u \<and>
   session_set conv s w obj key v = (Inr v, w(a := (w a)(obj \<mapsto> v)))"
  by (auto simp: session_get_def session_set_def transact_def is_object_iff Let_def
      mapGet_def weakHas_def weakGet_def weakSet_def)

text \<open>
  Claim C4, as the code has it. For a session the factory of a completed setup
  has returned, \<open>get\<close> and \<open>set\<close> with a key name outside \<open>refs\<close> throw the
  invalid-key \<open>Error\<close>; with a name inside and a target that is not an object or
  function, the \<open>TypeError\<close> for a non-object; with a name inside and an object,
  the store of that name is a weak map, and either it has an entry for the
  object, which \<open>get\<close> returns and \<open>set\<close> overwrites, returning the value
  written, or it has none: then both throw the \<open>TypeError\<close> for a missing field
  when the conversion of the object to a string returns, and otherwise throw
  what that conversion throws.
\<close>

theorem session_get_set:
  assumes "makeExportedKeys internalRefs resolve all scoped = Inr b"
    and "factory b filename keys = Inr s"
  shows "(key \<notin> refs s \<longrightarrow>
            session_get conv s w obj key =
              Inl (Error (''Invalid private key: #'' @ key)) \<and>
            session_set conv s w obj key v =
              (Inl (Error (''Invalid private key: #'' @ key)), w)) \<and>
         (key \<in> refs s \<and> \<not> is_object obj \<longrightarrow>
            session_get conv s w obj key =
              Inl (TypeError (''Private key #'' @ key @
                     '' cannot be referenced from non-object '' @
                     primitive_string conv obj @ ''!'')) \<and>
            session_set conv s w obj key v =
              (Inl (TypeError (''Private key #'' @ key @
                      '' cannot be referenced from non-object '' @
                      primitive_string conv obj @ ''!'')), w)) \<and>
         (key \<in> refs s \<and> is_object obj \<longrightarrow>
            (\<exists>a. internalRefs key = JWeakMap a \<and>
               (case w a obj of
                  None \<Rightarrow>
                    (case object_string conv obj of
                       Inr str \<Rightarrow>
                         session_get conv s w obj key =
                           Inl (TypeError (''Private key #'' @ key @
                                  '' does not exist on '' @ str @ ''!'')) \<and>
                         session_set conv s w obj key v =
                           (Inl (TypeError (''Private key #'' @ key @
                                   '' does not exist on '' @ str @ ''!'')), w)
                     | Inl e \<Rightarrow>
                         session_get conv s w obj key = Inl e \<and>
                         session_set conv s w obj key v = (Inl e, w))
                | Some u \<Rightarrow>
                    session_get conv s w obj key = Inr u \<and>
                    session_set conv s w obj key v =
                      (Inr v, w(a := (w a)(obj \<mapsto> v))))))"
proof (intro conjI impI)
  assume "key \<in> refs s \<and> is_object obj"
  then have k: "key \<in> refs s" and o: "is_object obj" by simp_all
  from session_refs_allowed[OF assms(2)] k
  have "key \<in> allowed b filename" and st: "stores s = exported b" by auto
  from allowed_has_store[OF assms(1) this(1)] obtain a where
    a: "internalRefs key = JWeakMap a" "stores s key = Some (JWeakMap a)"
    by (auto simp: st)
  have "case w a obj of
          None \<Rightarrow>
            (case object_string conv obj of
               Inr str \<Rightarrow>
                 session_get conv s w obj key =
                   Inl (TypeError (''Private key #'' @ key @
                          '' does not exist on '' @ str @ ''!'')) \<and>
                 session_set conv s w obj key v =
                   (Inl (TypeError (''Private key #'' @ key @
                           '' does not exist on '' @ str @ ''!'')), w)
             | Inl e \<Rightarrow>
                 session_get conv s w obj key = Inl e \<and>
                 session_set conv s w obj key v = (Inl e, w))
        | Some u \<Rightarrow>
            session_get conv s w obj key = Inr u \<and>
            session_set conv s w obj key v = (Inr v, w(a := (w a)(obj \<mapsto> v)))"
    using session_missing_field[OF k o a(2)] session_conversion_throws[OF k o a(2)]
      session_present[OF k o a(2)]
    by (cases "w a obj"; cases "object_string conv obj") simp_all
  with a(1) show "\<exists>a. internalRefs key = JWeakMap a \<and>
          (case w a obj of
             None \<Rightarrow>
               (case object_string conv obj of
                  Inr str \<Rightarrow>
                    session_get conv s w obj key =
                      Inl (TypeError (''Private key #'' @ key @
                             '' does not exist on '' @ str @ ''!'')) \<and>
                    session_set conv s w obj key v =
                      (Inl (TypeError (''Private key #'' @ key @
                              '' does not exist on '' @ str @ ''!'')), w)
                | Inl e \<Rightarrow>
                    session_get conv s w obj key = Inl e \<and>
                    session_set conv s w obj key v = (Inl e, w))
           | Some u \<Rightarrow>
               session_get conv s w obj key = Inr u \<and>
               session_set conv s w obj key v =
                 (Inr v, w(a := (w a)(obj \<mapsto> v))))"
    by - (rule exI[where x = a], simp)
qed (simp_all add: session_invalid_key session_non_object)

lemma decimal_3: "decimal 3 = ''3''"
  by (simp add: decimal.simps)

theorem session_get_set_witness:
  "session_get scenario_conversion scenario_session scenario_weakmaps (JObj 5) ''count'' =
     Inl (Error ''Invalid private key: #count'') \<and>
   session_get scenario_conversion scenario_session scenario_weakmaps (JNum 3) ''elem'' =
     Inl (TypeError ''Private key #elem cannot be referenced from non-object 3!'') \<and>
   session_get scenario_conversion scenario_session scenario_weakmaps (JObj 6) ''elem'' =
     Inl (TypeError ''Private key #elem does not exist on [object Object]!'') \<and>
   session_get scenario_conversion scenario_session scenario_weakmaps (JObj 8) ''elem'' =
     Inl (Error ''boom'') \<and>
   session_get scenario_conversion scenario_session scenario_weakmaps (JObj 5) ''elem'' =
     Inr (JStr ''div'') \<and>
   fst (session_set scenario_conversion scenario_session scenario_weakmaps (JObj 5) ''elem''
          (JStr ''span'')) = Inr (JStr ''span'') \<and>
   snd (session_set scenario_conversion scenario_session scenario_weakmaps (JObj 5) ''elem''
          (JStr ''span'')) 0 (JObj 5) = Some (JStr ''span'')"
  using
    session_get_set [OF scenario_setup scenario_factory, of "''count''" scenario_conversion
      scenario_weakmaps "JObj 5" "JStr ''span''"]
    session_get_set [OF scenario_setup scenario_factory, of "''elem''" scenario_conversion
      scenario_weakmaps "JNum 3" "JStr ''span''"]
    session_get_set [OF scenario_setup scenario_factory, of "''elem''" scenario_conversion
      scenario_weakmaps "JObj 6" "JStr ''span''"]
    session_get_set [OF scenario_setup scenario_factory, of "''elem''" scenario_conversion
      scenario_weakmaps "JObj 8" "JStr ''span''"]
    session_get_set [OF scenario_setup scenario_factory, of "''elem''" scenario_conversion
      scenario_weakmaps "JObj 5" "JStr ''span''"]
  by (simp add: scenario_session_def scenario_refs_def scenario_weakmaps_def
      scenario_conversion_def scenario_primitive_def scenario_object_string_def
      is_object_def decimal_3)

text \<open>
  The claim as it was written fails on an object that has no \<open>elem\<close> field and
  that cannot be converted to a string: the session is authorized for \<open>elem\<close>,
  the store has no entry for \<open>JObj 7\<close> nor for \<open>JObj 8\<close>, and \<open>get\<close> and \<open>set\<close> throw
  the exception of the conversion, not the error for a missing field.
\<close>

theorem session_get_set_counterexample:
  "makeExportedKeys scenario_refs scenario_resolve [''elem''] scenario_scoped =
     Inr scenario_exporter \<and>
   factory scenario_exporter ''/app/other.js'' [''elem''] = Inr scenario_session \<and>
   ''elem'' \<in> refs scenario_session \<and>
   is_object (JObj 7) \<and> scenario_weakmaps 0 (JObj 7) = None \<and>
   is_object (JObj 8) \<and> scenario_weakmaps 0 (JObj 8) = None \<and>
   session_get scenario_conversion scenario_session scenario_weakmaps (JObj 7) ''elem'' =
     Inl (TypeError ''Cannot convert object to primitive value'') \<and>
   session_get scenario_conversion scenario_session scenario_weakmaps (JObj 8) ''elem'' =
     Inl (Error ''boom'') \<and>
   fst (session_set scenario_conversion scenario_session scenario_weakmaps (JObj 8) ''elem''
          (JStr ''span'')) = Inl (Error ''boom'')"
  by (simp add: scenario_setup scenario_factory)
     (simp add: scenario_session_def scenario_exporter_def exported_on_def scenario_refs_def
        scenario_weakmaps_def scenario_conversion_def scenario_object_string_def
        is_object_def session_get_def session_set_def transact_def mapGet_def weakHas_def
        toString_def)

text \<open>
  Claim C9. The test of \<open>refs\<close> comes first: for a name outside \<open>refs\<close> the
  invalid-key \<open>Error\<close> is thrown whatever the target is and whatever the weak
  maps hold, and \<open>set\<close> leaves them as they were.
\<close>

theorem authorization_checked_first:
  assumes "key \<notin> refs s"
  shows "session_get conv s w obj key = Inl (Error (''Invalid private key: #'' @ key)) \<and>
         session_set conv s w obj key v =
           (Inl (Error (''Invalid private key: #'' @ key)), w)"
  using assms by (simp add: session_get_def session_set_def transact_def)

theorem authorization_checked_first_witness:
  "session_get scenario_conversion scenario_session scenario_weakmaps (JNum 3) ''count'' =
     Inl (Error ''Invalid private key: #count'') \<and>
   session_get scenario_conversion scenario_session scenario_weakmaps (JObj 6) ''count'' =
     Inl (Error ''Invalid private key: #count'') \<and>
   session_set scenario_conversion scenario_session scenario_weakmaps JUndefined ''count'' JNull =
     (Inl (Error ''Invalid private key: #count''), scenario_weakmaps)"
  using
    authorization_checked_first [of "''count''" scenario_session scenario_conversion
      scenario_weakmaps "JNum 3" JNull]
    authorization_checked_first [of "''count''" scenario_session scenario_conversion
      scenario_weakmaps "JObj 6" JNull]
    authorization_checked_first [of "''count''" scenario_session scenario_conversion
      scenario_weakmaps JUndefined JNull]
  by (simp add: scenario_session_def)

subsection \<open>The importer\<close>

text \<open>
  While \<open>result\<close> is a string, \<open>get\<close> and \<open>set\<close> throw the \<open>ReferenceError\<close> built
  from the requested key and that string; before any \<open>init\<close> the string is the
  source.
\<close>

lemma importer_unbound_get_set:
  "importer_get conv (BString s) w obj key = Inl (not_referenced key s) \<and>
   importer_set conv (BString s) w obj key v = (Inl (not_referenced key s), w)"
  by (simp add: importer_get_def importer_set_def)

text \<open>
  Claim C6, as the code has it. \<open>init\<close> never reads the state it finds. When the
  argument passes the two shape tests and its exports carry a function
  \<open>__exportedKeys\<close>, the state after \<open>init\<close> is what that function returns for the
  caller and the requested names, whether the state before was the source, a
  recorded key name or a session; in every other case the state is left as it
  was.
\<close>

theorem importer_init_binding:
  "snd (importer_init env result m filename keys) =
     (if has_hook env m then hook_result env m filename keys else result)"
  by (auto simp: importer_init_def has_hook_def hook_result_def is_object_iff Let_def
      split: binding.splits)

theorem importer_init_binding_witness:
  "snd (importer_init scenario_env (BString ''x'') (JObj 10) ''/app/other.js'' [''elem'']) =
     BSession scenario_session \<and>
   snd (importer_init scenario_env (BString ''x'') (JObj 11) ''/app/other.js'' [''elem'']) =
     BString ''x''"
  using
    importer_init_binding [of scenario_env "BString ''x''" "JObj 10" "''/app/other.js''"
      "[''elem'']"]
    importer_init_binding [of scenario_env "BString ''x''" "JObj 11" "''/app/other.js''"
      "[''elem'']"]
  by (simp add: scenario_has_hook hook_result_def scenario_env_def scenario_property_def
      scenario_call_def scenario_factory has_hook_def is_object_def)

text \<open>
  The claim as it was written fails: a first \<open>init\<close> requesting \<open>elem\<close> and \<open>x\<close>
  records \<open>x\<close> and throws; a second \<open>init\<close> on the same module requesting only
  \<open>elem\<close> returns normally and leaves a session; a third requesting \<open>x\<close> leaves
  the recorded name \<open>x\<close> again.
\<close>

theorem importer_init_counterexample:
  "snd (importer_init scenario_env (getExportedKeys ''./create'') (JObj 10)
          ''/app/other.js'' [''elem'', ''x'']) = BString ''x'' \<and>
   fst (importer_init scenario_env (getExportedKeys ''./create'') (JObj 10)
          ''/app/other.js'' [''elem'', ''x'']) =
     Inl (ReferenceError ''Private key #elem could not be referenced from 'x'!'') \<and>
   importer_init scenario_env (BString ''x'') (JObj 10) ''/app/other.js'' [''elem''] =
     (Inr (), BSession scenario_session) \<and>
   snd (importer_init scenario_env (BSession scenario_session) (JObj 10)
          ''/app/other.js'' [''x'']) = BString ''x''"
  by (simp add: importer_init_def getExportedKeys_def scenario_env_def scenario_property_def
      scenario_call_def factory_char scenario_allowed scenario_session_def
      not_referenced_def first_key_def)

text \<open>
  Claim C7. An importer for the source \<open>./create\<close> whose \<open>init\<close> fails on the
  unauthorized name \<open>foo\<close> afterwards answers \<open>get\<close> for \<open>elem\<close> with a
  \<open>ReferenceError\<close> that has \<open>foo\<close> where the source belongs; the source itself
  is gone, because \<open>init\<close> stored the name in the variable that held it.
\<close>

theorem importer_get_after_failed_init:
  "importer_get scenario_conversion
     (snd (importer_init scenario_env (getExportedKeys ''./create'') (JObj 10)
             ''/app/other.js'' [''elem'', ''foo'']))
     scenario_weakmaps (JObj 5) ''elem'' =
   Inl (ReferenceError ''Private key #elem could not be referenced from 'foo'!'')"
  by (simp add: importer_get_def importer_init_def getExportedKeys_def scenario_env_def
      scenario_property_def scenario_call_def factory_char scenario_allowed
      not_referenced_def first_key_def)

end
